theory Spec2Isabelle
  imports Complex_Main "HOL-Library.Char_ord" "HOL-Library.List_Lexorder"
begin

section \<open>Go values: errors and results\<close>

text \<open>
  The library is two Go files that define the same package twice: the client that carries
  an API token (type \<open>Client\<close> with the fields \<open>baseUrl\<close>, \<open>token\<close>, \<open>client\<close>) and the client
  without a token (\<open>libretranslate.go\<close>, fields \<open>baseUrl\<close>, \<open>client\<close>). Names of the second file
  carry the suffix \<open>_noauth\<close>. Strings are byte strings, as in Go.

  A Go \<open>error\<close> is a value. \<open>Errorf s\<close> is the error made by \<open>fmt.Errorf\<close> whose text is \<open>s\<close>,
  \<open>JSONError\<close> an error of \<open>encoding/json\<close>, \<open>TransportError\<close> whatever the HTTP client reports.
\<close>

datatype json_error =
    EOF
  | ErrUnexpectedEOF
  | SyntaxError
  | UnmarshalTypeError string

datatype error =
    Errorf string
  | TransportError string
  | JSONError json_error

text \<open>
  A method returns the Go pair (value, error), the error being \<open>None\<close> for \<open>nil\<close>, or it does
  not return because the run-time panics (a nil pointer is dereferenced).
\<close>

datatype 'a go_result =
    Return 'a "error option"
  | Panic

section \<open>Package path: Clean and Join\<close>

text \<open>
  \<open>path.Clean\<close> writes into a buffer \<open>out\<close> while it reads the path; \<open>dotdot\<close> is the index
  in the buffer where a \<open>..\<close> element must stop. \<open>back_loop\<close> is the inner loop of the \<open>..\<close>
  case: it moves the write index back to the last slash.
\<close>

function back_loop :: "string \<Rightarrow> nat \<Rightarrow> nat \<Rightarrow> string" where
  "back_loop out w dotdot =
     (if w > dotdot \<and> out ! w \<noteq> CHR ''/'' then back_loop out (w - 1) dotdot else take w out)"
  by pat_completeness auto
termination
  by (relation "measure (\<lambda>(out, w, dotdot). w)") auto

function clean_loop :: "bool \<Rightarrow> string \<Rightarrow> nat \<Rightarrow> string \<Rightarrow> string" where
  "clean_loop rooted out dotdot [] = out"
| "clean_loop rooted out dotdot (c # rest) =
     (if c = CHR ''/'' then clean_loop rooted out dotdot rest
      else if c = CHR ''.'' \<and> (rest = [] \<or> hd rest = CHR ''/'') then
        clean_loop rooted out dotdot rest
      else if c = CHR ''.'' \<and> hd rest = CHR ''.'' \<and> (tl rest = [] \<or> hd (tl rest) = CHR ''/'') then
        (if length out > dotdot then
           clean_loop rooted (back_loop out (length out - 1) dotdot) dotdot (tl rest)
         else if \<not> rooted then
           clean_loop rooted ((if length out > 0 then out @ ''/'' else out) @ ''..'')
             (length ((if length out > 0 then out @ ''/'' else out) @ ''..'')) (tl rest)
         else clean_loop rooted out dotdot (tl rest))
      else
        clean_loop rooted
          ((if rooted \<and> length out \<noteq> 1 \<or> \<not> rooted \<and> length out \<noteq> 0
            then out @ ''/'' else out) @ c # takeWhile (\<lambda>x. x \<noteq> CHR ''/'') rest)
          dotdot (dropWhile (\<lambda>x. x \<noteq> CHR ''/'') rest))"
  by pat_completeness auto
termination
proof (relation "measure (\<lambda>(rooted, out, dotdot, path). length path)")
  show "wf (measure (\<lambda>(rooted, out, dotdot, path). length path))" by simp
qed (auto simp: length_dropWhile_le less_Suc_eq_le)

definition Clean :: "string \<Rightarrow> string" where
  "Clean path =
     (if path = [] then ''.''
      else
        (let rooted = (hd path = CHR ''/'');
             out = (if rooted then clean_loop True ''/'' 1 (tl path)
                    else clean_loop False [] 0 path)
         in if out = [] then ''.'' else out))"

definition Join :: "string list \<Rightarrow> string" where
  "Join elem =
     (if (\<Sum>e\<leftarrow>elem. length e) = 0 then []
      else Clean (foldl (\<lambda>buf e. if buf \<noteq> [] \<or> e \<noteq> []
                                   then (if buf \<noteq> [] then buf @ ''/'' else buf) @ e
                                   else buf) [] elem))"

section \<open>Package net/url: URL, Values, QueryEscape\<close>

record URL =
  Scheme :: string
  Opaque :: string
  User :: "(string \<times> string option) option"
  Host :: string
  Path :: string
  RawPath :: string
  OmitHost :: bool
  ForceQuery :: bool
  RawQuery :: string
  Fragment :: string
  RawFragment :: string

text \<open>
  \<open>url.Values\<close> is a map from a key to its list of values. It is kept as an association
  list with one entry per key; \<open>Values_Set\<close> replaces the entry of its key.
\<close>

type_synonym Values = "(string \<times> string list) list"

definition Values_Set :: "string \<Rightarrow> string \<Rightarrow> Values \<Rightarrow> Values" where
  "Values_Set key val v = (key, [val]) # filter (\<lambda>kv. fst kv \<noteq> key) v"

definition upperhex :: string where
  "upperhex = ''0123456789ABCDEF''"

definition isAlnum :: "char \<Rightarrow> bool" where
  "isAlnum c =
     (let n = (of_char c :: nat)
      in 97 \<le> n \<and> n \<le> 122 \<or> 65 \<le> n \<and> n \<le> 90 \<or> 48 \<le> n \<and> n \<le> 57)"

text \<open>\<open>shouldEscape\<close> in the mode \<open>encodeQueryComponent\<close>, the only mode \<open>QueryEscape\<close> uses.\<close>

definition shouldEscape :: "char \<Rightarrow> bool" where
  "shouldEscape c =
     (if isAlnum c then False
      else if c \<in> set ''-_.~'' then False
      else True)"

definition escape_char :: "char \<Rightarrow> string" where
  "escape_char c =
     (if shouldEscape c then
        (if c = CHR '' '' then ''+''
         else [CHR ''%'', upperhex ! (of_char c div 16), upperhex ! (of_char c mod 16)])
      else [c])"

definition QueryEscape :: "string \<Rightarrow> string" where
  "QueryEscape s = concat (map escape_char s)"

fun join_with :: "string \<Rightarrow> string list \<Rightarrow> string" where
  "join_with sep [] = []"
| "join_with sep [x] = x"
| "join_with sep (x # y # ys) = x @ sep @ join_with sep (y # ys)"

text \<open>
  \<open>Values.Encode\<close>: the keys of the map sorted bytewise, every value of a key as
  \<open>key=value\<close> with both sides escaped, joined by \<open>&\<close>.
\<close>

definition Values_Encode :: "Values \<Rightarrow> string" where
  "Values_Encode v =
     join_with ''&''
       (concat (map (\<lambda>k. map (\<lambda>x. QueryEscape k @ ''='' @ QueryEscape x)
                              (case map_of v k of None \<Rightarrow> [] | Some vs \<Rightarrow> vs))
                    (sort (remdups (map fst v)))))"

section \<open>Package net/http: Request, Response, NewRequest\<close>

record Request =
  Method :: string
  URL :: URL
  Header :: "string \<rightharpoonup> string list"
  ReqBody :: string

record Response =
  StatusCode :: int
  Body :: string

text \<open>
  What the library uses of the Go standard library and cannot be read from its two files:
  the URL parser and printer of \<open>net/url\<close>, \<open>strconv.Quote\<close> (the \<open>%q\<close> of an error text) and
  the HTTP client \<open>http.DefaultClient\<close>. They are parameters of the model; every theorem
  holds for whatever they compute. \<open>url_Parse\<close> returns the text of its error on the left.
  An HTTP client is the function \<open>Do\<close> from a request to an error or a response, the body of
  the response being the bytes the caller can read from it.
\<close>

record stdlib =
  url_Parse :: "string \<Rightarrow> string + URL"
  URL_String :: "URL \<Rightarrow> string"
  strconv_Quote :: "string \<Rightarrow> string"
  http_DefaultClient :: "Request \<Rightarrow> error + Response"

definition MethodGet :: string where
  "MethodGet = ''GET''"

definition MethodPost :: string where
  "MethodPost = ''POST''"

definition isTokenChar :: "char \<Rightarrow> bool" where
  "isTokenChar c = (isAlnum c \<or> c \<in> set ''!#$%&*+-.^_`|~'' \<or> of_char c = (39 :: nat))"

definition validMethod :: "string \<Rightarrow> bool" where
  "validMethod method = (length method > 0 \<and> list_all isTokenChar method)"

definition removeEmptyPort :: "string \<Rightarrow> string" where
  "removeEmptyPort host =
     (if host \<noteq> [] \<and> last host = CHR '':'' then butlast host else host)"

definition http_NewRequest :: "stdlib \<Rightarrow> string \<Rightarrow> string \<Rightarrow> string \<Rightarrow> string + Request" where
  "http_NewRequest lib method0 url body =
     (let method = (if method0 = [] then ''GET'' else method0) in
      if \<not> validMethod method then
        Inl (''net/http: invalid method '' @ strconv_Quote lib method)
      else
        (case url_Parse lib url of
           Inl err \<Rightarrow> Inl err
         | Inr u \<Rightarrow>
             Inr \<lparr>Method = method, URL = u\<lparr>Host := removeEmptyPort (Host u)\<rparr>,
                  Header = Map.empty, ReqBody = body\<rparr>))"

definition Header_Set :: "string \<Rightarrow> string \<Rightarrow> (string \<rightharpoonup> string list) \<Rightarrow> (string \<rightharpoonup> string list)" where
  "Header_Set key val h = h(key \<mapsto> [val])"

section \<open>Package fmt: the verb %d\<close>

function digits :: "nat \<Rightarrow> string" where
  "digits n = (if n < 10 then [''0123456789'' ! n] else digits (n div 10) @ [''0123456789'' ! (n mod 10)])"
  by pat_completeness auto
termination
  by (relation "measure (\<lambda>n. n)") auto

definition itoa :: "int \<Rightarrow> string" where
  "itoa i = (if i < 0 then CHR ''-'' # digits (nat (- i)) else digits (nat i))"

section \<open>Package encoding/json: reading one value\<close>

text \<open>
  \<open>Decoder.Decode\<close> reads the next JSON value of the stream and stores it in a Go value.
  The value is read by the scanner of the package, a state machine over the bytes; it stops
  at the end of the first complete value, whatever follows. Here the bytes are first cut into
  tokens (\<open>scan\<close>), the tokens are then put together with the scanner's stack of open arrays
  and objects (\<open>parse\<close>). Both are structural recursions over their input.
\<close>

datatype json =
    JNull
  | JBool bool
  | JNumber string
  | JString string
  | JArray "json list"
  | JObject "(string \<times> json) list"

datatype token =
    TBeginObject
  | TEndObject
  | TBeginArray
  | TEndArray
  | TColon
  | TComma
  | TString string
  | TNumber string
  | TLiteral json
  | TInvalid
  | TTruncated bool

text \<open>
  \<open>TInvalid\<close> stands where a byte cannot continue the input, \<open>TTruncated\<close> where the input
  ends inside a token (\<open>True\<close> inside a string). The states of a number are the scanner's
  \<open>stateNeg\<close>, \<open>state0\<close>, \<open>state1\<close>, \<open>stateDot\<close>, \<open>stateDot0\<close>, \<open>stateE\<close>, \<open>stateESign\<close>, \<open>stateE0\<close>.
\<close>

datatype num_state = Neg | Zero | Digits | Dot | Dot0 | Exp | ExpSign | Exp0

datatype scan_state =
    BeginValue
  | InString string
  | InStringEsc string
  | InStringEscU string nat
  | InNumber num_state string
  | InLiteral string json

definition isSpace :: "char \<Rightarrow> bool" where
  "isSpace c = (of_char c \<in> {32, 9, 13, 10 :: nat})"

definition isDigit :: "char \<Rightarrow> bool" where
  "isDigit c = (48 \<le> (of_char c :: nat) \<and> (of_char c :: nat) \<le> 57)"

definition isHex :: "char \<Rightarrow> bool" where
  "isHex c =
     (let n = (of_char c :: nat)
      in 48 \<le> n \<and> n \<le> 57 \<or> 97 \<le> n \<and> n \<le> 102 \<or> 65 \<le> n \<and> n \<le> 70)"

definition begin_token :: "char \<Rightarrow> token list \<times> scan_state option" where
  "begin_token c =
     (if isSpace c then ([], Some BeginValue)
      else if c = CHR ''{'' then ([TBeginObject], Some BeginValue)
      else if c = CHR ''}'' then ([TEndObject], Some BeginValue)
      else if c = CHR ''['' then ([TBeginArray], Some BeginValue)
      else if c = CHR '']'' then ([TEndArray], Some BeginValue)
      else if c = CHR '':'' then ([TColon], Some BeginValue)
      else if c = CHR '','' then ([TComma], Some BeginValue)
      else if of_char c = (34 :: nat) then ([], Some (InString []))
      else if c = CHR ''-'' then ([], Some (InNumber Neg [c]))
      else if c = CHR ''0'' then ([], Some (InNumber Zero [c]))
      else if isDigit c then ([], Some (InNumber Digits [c]))
      else if c = CHR ''t'' then ([], Some (InLiteral ''rue'' (JBool True)))
      else if c = CHR ''f'' then ([], Some (InLiteral ''alse'' (JBool False)))
      else if c = CHR ''n'' then ([], Some (InLiteral ''ull'' JNull))
      else ([TInvalid], None))"

definition end_number :: "string \<Rightarrow> char \<Rightarrow> token list \<times> scan_state option" where
  "end_number acc c = (case begin_token c of (toks, st) \<Rightarrow> (TNumber acc # toks, st))"

definition number_step :: "num_state \<Rightarrow> string \<Rightarrow> char \<Rightarrow> token list \<times> scan_state option" where
  "number_step ns acc c =
     (case ns of
        Neg \<Rightarrow>
          (if c = CHR ''0'' then ([], Some (InNumber Zero (acc @ [c])))
           else if isDigit c then ([], Some (InNumber Digits (acc @ [c])))
           else ([TInvalid], None))
      | Digits \<Rightarrow>
          (if isDigit c then ([], Some (InNumber Digits (acc @ [c])))
           else if c = CHR ''.'' then ([], Some (InNumber Dot (acc @ [c])))
           else if c = CHR ''e'' \<or> c = CHR ''E'' then ([], Some (InNumber Exp (acc @ [c])))
           else end_number acc c)
      | Zero \<Rightarrow>
          (if c = CHR ''.'' then ([], Some (InNumber Dot (acc @ [c])))
           else if c = CHR ''e'' \<or> c = CHR ''E'' then ([], Some (InNumber Exp (acc @ [c])))
           else end_number acc c)
      | Dot \<Rightarrow>
          (if isDigit c then ([], Some (InNumber Dot0 (acc @ [c])))
           else ([TInvalid], None))
      | Dot0 \<Rightarrow>
          (if isDigit c then ([], Some (InNumber Dot0 (acc @ [c])))
           else if c = CHR ''e'' \<or> c = CHR ''E'' then ([], Some (InNumber Exp (acc @ [c])))
           else end_number acc c)
      | Exp \<Rightarrow>
          (if c = CHR ''+'' \<or> c = CHR ''-'' then ([], Some (InNumber ExpSign (acc @ [c])))
           else if isDigit c then ([], Some (InNumber Exp0 (acc @ [c])))
           else ([TInvalid], None))
      | ExpSign \<Rightarrow>
          (if isDigit c then ([], Some (InNumber Exp0 (acc @ [c])))
           else ([TInvalid], None))
      | Exp0 \<Rightarrow>
          (if isDigit c then ([], Some (InNumber Exp0 (acc @ [c])))
           else end_number acc c))"

definition scan_step :: "scan_state \<Rightarrow> char \<Rightarrow> token list \<times> scan_state option" where
  "scan_step st c =
     (case st of
        BeginValue \<Rightarrow> begin_token c
      | InString acc \<Rightarrow>
          (if of_char c = (34 :: nat) then ([TString acc], Some BeginValue)
           else if of_char c = (92 :: nat) then ([], Some (InStringEsc (acc @ [c])))
           else if (of_char c :: nat) < 32 then ([TInvalid], None)
           else ([], Some (InString (acc @ [c]))))
      | InStringEsc acc \<Rightarrow>
          (if c \<in> set ''bfnrt/'' \<or> of_char c = (92 :: nat) \<or> of_char c = (34 :: nat)
           then ([], Some (InString (acc @ [c])))
           else if c = CHR ''u'' then ([], Some (InStringEscU (acc @ [c]) 4))
           else ([TInvalid], None))
      | InStringEscU acc n \<Rightarrow>
          (if isHex c then
             (if n \<le> 1 then ([], Some (InString (acc @ [c])))
              else ([], Some (InStringEscU (acc @ [c]) (n - 1))))
           else ([TInvalid], None))
      | InNumber ns acc \<Rightarrow> number_step ns acc c
      | InLiteral expected v \<Rightarrow>
          (case expected of
             [] \<Rightarrow> ([TInvalid], None)
           | e # es \<Rightarrow>
               (if c = e then
                  (if es = [] then ([TLiteral v], Some BeginValue)
                   else ([], Some (InLiteral es v)))
                else ([TInvalid], None))))"

definition scan_eof :: "scan_state \<Rightarrow> token list" where
  "scan_eof st =
     (case st of
        BeginValue \<Rightarrow> []
      | InString acc \<Rightarrow> [TTruncated True]
      | InStringEsc acc \<Rightarrow> [TTruncated True]
      | InStringEscU acc n \<Rightarrow> [TTruncated True]
      | InNumber ns acc \<Rightarrow>
          (if ns = Zero \<or> ns = Digits \<or> ns = Dot0 \<or> ns = Exp0 then [TNumber acc]
           else [TTruncated False])
      | InLiteral expected v \<Rightarrow> [TTruncated False])"

fun scan :: "scan_state \<Rightarrow> string \<Rightarrow> token list" where
  "scan st [] = scan_eof st"
| "scan st (c # cs) =
     (case scan_step st c of
        (toks, None) \<Rightarrow> toks
      | (toks, Some st') \<Rightarrow> toks @ scan st' cs)"

subsection \<open>String literals\<close>

text \<open>
  \<open>unquote\<close> turns the bytes between the quotes into the string they denote: escapes are
  replaced, \<open>\u\<close> escapes (with UTF-16 surrogate pairs) are written in UTF-8, and every byte
  that is not part of well-formed UTF-8 becomes the replacement character U+FFFD.
\<close>

definition hexval :: "char \<Rightarrow> nat" where
  "hexval c =
     (let n = (of_char c :: nat)
      in if 48 \<le> n \<and> n \<le> 57 then n - 48
         else if 97 \<le> n \<and> n \<le> 102 then n - 87
         else if 65 \<le> n \<and> n \<le> 70 then n - 55
         else 0)"

definition getu4 :: "string \<Rightarrow> nat option" where
  "getu4 s =
     (if length s < 6 \<or> of_char (s ! 0) \<noteq> (92 :: nat) \<or> s ! 1 \<noteq> CHR ''u''
         \<or> \<not> list_all isHex (take 4 (drop 2 s))
      then None
      else Some (foldl (\<lambda>r c. r * 16 + hexval c) 0 (take 4 (drop 2 s))))"

definition byte :: "nat \<Rightarrow> char" where
  "byte n = char_of n"

definition EncodeRune :: "nat \<Rightarrow> string" where
  "EncodeRune r =
     (if r \<le> 127 then [byte r]
      else if r \<le> 2047 then [byte (192 + r div 64), byte (128 + r mod 64)]
      else if r > 1114111 \<or> (55296 \<le> r \<and> r \<le> 57343) then [byte 239, byte 191, byte 189]
      else if r \<le> 65535 then
        [byte (224 + r div 4096), byte (128 + (r div 64) mod 64), byte (128 + r mod 64)]
      else
        [byte (240 + r div 262144), byte (128 + (r div 4096) mod 64),
         byte (128 + (r div 64) mod 64), byte (128 + r mod 64)])"

definition IsSurrogate :: "nat \<Rightarrow> bool" where
  "IsSurrogate r = (55296 \<le> r \<and> r < 57344)"

text \<open>\<open>utf16.DecodeRune\<close>; the second rune is \<open>None\<close> when no \<open>\u\<close> escape follows.\<close>

definition utf16_DecodeRune :: "nat \<Rightarrow> nat option \<Rightarrow> nat" where
  "utf16_DecodeRune r1 r2o =
     (case r2o of
        None \<Rightarrow> 65533
      | Some r2 \<Rightarrow>
          (if 55296 \<le> r1 \<and> r1 < 56320 \<and> 56320 \<le> r2 \<and> r2 < 57344
           then (r1 - 55296) * 1024 + (r2 - 56320) + 65536
           else 65533))"

text \<open>
  The width of the well-formed UTF-8 sequence at the head of a string, 0 when there is
  none (\<open>utf8.DecodeRune\<close> then returns the replacement character and the width 1).
\<close>

definition isCont :: "nat \<Rightarrow> bool" where
  "isCont b = (128 \<le> b \<and> b \<le> 191)"

definition utf8_width :: "string \<Rightarrow> nat" where
  "utf8_width s =
     (case map of_char (take 4 s) of
        [] \<Rightarrow> 0
      | b0 # bs \<Rightarrow>
          (if b0 < 128 then 1
           else if 194 \<le> b0 \<and> b0 \<le> 223 then
             (case bs of b1 # _ \<Rightarrow> if isCont b1 then 2 else 0 | _ \<Rightarrow> 0)
           else if 224 \<le> b0 \<and> b0 \<le> 239 then
             (case bs of
                b1 # b2 # _ \<Rightarrow>
                  (if (if b0 = 224 then 160 else 128) \<le> b1
                      \<and> b1 \<le> (if b0 = 237 then 159 else 191) \<and> isCont b2
                   then 3 else 0)
              | _ \<Rightarrow> 0)
           else if 240 \<le> b0 \<and> b0 \<le> 244 then
             (case bs of
                b1 # b2 # b3 # _ \<Rightarrow>
                  (if (if b0 = 240 then 144 else 128) \<le> b1
                      \<and> b1 \<le> (if b0 = 244 then 143 else 191) \<and> isCont b2 \<and> isCont b3
                   then 4 else 0)
              | _ \<Rightarrow> 0)
           else 0))"

definition unescape :: "char \<Rightarrow> char" where
  "unescape c =
     (if c = CHR ''b'' then byte 8
      else if c = CHR ''f'' then byte 12
      else if c = CHR ''n'' then byte 10
      else if c = CHR ''r'' then byte 13
      else if c = CHR ''t'' then byte 9
      else c)"

function unquote :: "string \<Rightarrow> string" where
  "unquote [] = []"
| "unquote (c # rest) =
     (if of_char c = (92 :: nat) then
        (if rest = [] then []
         else if hd rest = CHR ''u'' then
           (case getu4 (c # rest) of
              None \<Rightarrow> []
            | Some rr \<Rightarrow>
                (if IsSurrogate rr then
                   (if utf16_DecodeRune rr (getu4 (drop 5 rest)) \<noteq> 65533
                    then EncodeRune (utf16_DecodeRune rr (getu4 (drop 5 rest)))
                           @ unquote (drop 11 rest)
                    else EncodeRune 65533 @ unquote (drop 5 rest))
                 else EncodeRune rr @ unquote (drop 5 rest)))
         else unescape (hd rest) # unquote (tl rest))
      else if (of_char c :: nat) < 128 then c # unquote rest
      else if utf8_width (c # rest) = 0 then EncodeRune 65533 @ unquote rest
      else (c # take (utf8_width (c # rest) - 1) rest)
             @ unquote (drop (utf8_width (c # rest) - 1) rest))"
  by pat_completeness auto
termination
  by (relation "measure length") auto

subsection \<open>The value read from the stream\<close>

datatype frame =
    InArray "json list"
  | InObject "(string \<times> json) list"
  | ObjectKey string

datatype parse_state =
    ExpectValue
  | ExpectValueOrEnd
  | ExpectKeyOrEnd
  | ExpectKey
  | ExpectColon
  | ExpectCommaOrEnd

datatype parse_step_result =
    Done json
  | Next parse_state "frame list"
  | Fail json_error

definition end_value :: "json \<Rightarrow> frame list \<Rightarrow> parse_step_result" where
  "end_value v stk =
     (case stk of
        [] \<Rightarrow> Done v
      | InArray vs # stk' \<Rightarrow> Next ExpectCommaOrEnd (InArray (v # vs) # stk')
      | ObjectKey k # InObject kvs # stk' \<Rightarrow> Next ExpectCommaOrEnd (InObject ((k, v) # kvs) # stk')
      | _ \<Rightarrow> Fail SyntaxError)"

definition end_container :: "frame list \<Rightarrow> parse_step_result" where
  "end_container stk =
     (case stk of
        InArray vs # stk' \<Rightarrow> end_value (JArray (rev vs)) stk'
      | InObject kvs # stk' \<Rightarrow> end_value (JObject (rev kvs)) stk'
      | _ \<Rightarrow> Fail SyntaxError)"

text \<open>
  The scanner refuses the value that nests arrays and objects deeper than
  \<open>maxNestingDepth\<close>; an \<open>ObjectKey\<close> frame belongs to the object below it.
\<close>

definition maxNestingDepth :: int where
  "maxNestingDepth = 10000"

definition nesting :: "frame list \<Rightarrow> int" where
  "nesting stk = int (length (filter (\<lambda>f. case f of ObjectKey k \<Rightarrow> False | _ \<Rightarrow> True) stk))"

definition begin_value :: "token \<Rightarrow> frame list \<Rightarrow> parse_step_result" where
  "begin_value tok stk =
     (case tok of
        TBeginObject \<Rightarrow>
          (if nesting stk < maxNestingDepth then Next ExpectKeyOrEnd (InObject [] # stk)
           else Fail SyntaxError)
      | TBeginArray \<Rightarrow>
          (if nesting stk < maxNestingDepth then Next ExpectValueOrEnd (InArray [] # stk)
           else Fail SyntaxError)
      | TString raw \<Rightarrow> end_value (JString (unquote raw)) stk
      | TNumber n \<Rightarrow> end_value (JNumber n) stk
      | TLiteral v \<Rightarrow> end_value v stk
      | TTruncated b \<Rightarrow> Fail ErrUnexpectedEOF
      | _ \<Rightarrow> Fail SyntaxError)"

definition begin_key :: "token \<Rightarrow> frame list \<Rightarrow> parse_step_result" where
  "begin_key tok stk =
     (case tok of
        TString raw \<Rightarrow> Next ExpectColon (ObjectKey (unquote raw) # stk)
      | TTruncated b \<Rightarrow> (if b then Fail ErrUnexpectedEOF else Fail SyntaxError)
      | _ \<Rightarrow> Fail SyntaxError)"

definition parse_step :: "parse_state \<Rightarrow> frame list \<Rightarrow> token \<Rightarrow> parse_step_result" where
  "parse_step st stk tok =
     (case st of
        ExpectValue \<Rightarrow> begin_value tok stk
      | ExpectValueOrEnd \<Rightarrow> (if tok = TEndArray then end_container stk else begin_value tok stk)
      | ExpectKeyOrEnd \<Rightarrow> (if tok = TEndObject then end_container stk else begin_key tok stk)
      | ExpectKey \<Rightarrow> begin_key tok stk
      | ExpectColon \<Rightarrow> (if tok = TColon then Next ExpectValue stk else Fail SyntaxError)
      | ExpectCommaOrEnd \<Rightarrow>
          (case stk of
             InArray vs # stk' \<Rightarrow>
               (if tok = TComma then Next ExpectValue stk
                else if tok = TEndArray then end_container stk
                else Fail SyntaxError)
           | InObject kvs # stk' \<Rightarrow>
               (if tok = TComma then Next ExpectKey stk
                else if tok = TEndObject then end_container stk
                else Fail SyntaxError)
           | _ \<Rightarrow> Fail SyntaxError))"

fun parse :: "parse_state \<Rightarrow> frame list \<Rightarrow> token list \<Rightarrow> json_error + json" where
  "parse st stk [] = Inl ErrUnexpectedEOF"
| "parse st stk (t # ts) =
     (case parse_step st stk t of
        Done v \<Rightarrow> Inr v
      | Fail e \<Rightarrow> Inl e
      | Next st' stk' \<Rightarrow> parse st' stk' ts)"

text \<open>
  \<open>readValue\<close>: the first JSON value of the body. An empty body, or one of white space
  only, is \<open>io.EOF\<close>; a body that ends inside its first value is \<open>io.ErrUnexpectedEOF\<close>.
\<close>

definition readValue :: "string \<Rightarrow> json_error + json" where
  "readValue body =
     (case scan BeginValue body of
        [] \<Rightarrow> Inl EOF
      | t # ts \<Rightarrow> parse ExpectValue [] (t # ts))"

subsection \<open>Storing a value in a Go value\<close>

text \<open>
  A \<open>float64\<close> is modelled by the rational number a JSON literal denotes: the rounding to
  the nearest binary64 is left out, the range check of \<open>strconv.ParseFloat\<close> is kept (a
  literal that rounds to infinity is refused).
\<close>

type_synonym float64 = rat

definition digits_value :: "string \<Rightarrow> nat" where
  "digits_value ds = foldl (\<lambda>r c. r * 10 + (of_char c - 48)) 0 ds"

definition number_value :: "string \<Rightarrow> rat" where
  "number_value lit =
     (let neg = (lit \<noteq> [] \<and> hd lit = CHR ''-'');
          s = (if neg then tl lit else lit);
          ip = takeWhile isDigit s;
          r1 = dropWhile isDigit s;
          frac = (r1 \<noteq> [] \<and> hd r1 = CHR ''.'');
          fp = (if frac then takeWhile isDigit (tl r1) else []);
          r2 = (if frac then dropWhile isDigit (tl r1) else r1);
          r3 = (if r2 = [] then [] else tl r2);
          eneg = (r3 \<noteq> [] \<and> hd r3 = CHR ''-'');
          ed = (if r3 \<noteq> [] \<and> (hd r3 = CHR ''-'' \<or> hd r3 = CHR ''+'') then tl r3 else r3);
          e10 = (if eneg then - int (digits_value ed) else int (digits_value ed)) - int (length fp);
          m = int (digits_value (ip @ fp));
          v = (if e10 \<ge> 0 then of_int (m * 10 ^ nat e10) else of_int m / of_int (10 ^ nat (- e10)))
      in if neg then - v else v)"

text \<open>
  The least magnitude that rounds to infinity: \<open>2 ^ 1024 - 2 ^ 970\<close>, half a unit in the last
  place above the largest \<open>float64\<close>.
\<close>

definition float64_overflow :: rat where
  "float64_overflow = 179769313486231580793728971405303415079934132710037826936173778980444968292764750946649017977587207096330286416692887910946555547851940402630657488671505820681908902000708383676273854845817711531764475730270069855571366959622842914819860834936475292719074168444365510704342711559699508093042880177904174497792"

definition ParseFloat64 :: "string \<Rightarrow> float64 option" where
  "ParseFloat64 lit =
     (if \<bar>number_value lit\<bar> \<ge> float64_overflow then None else Some (number_value lit))"

text \<open>\<open>saveError\<close> keeps the first error; decoding goes on after it.\<close>

definition saveError :: "json_error \<Rightarrow> json_error option \<Rightarrow> json_error option" where
  "saveError e saved = (case saved of None \<Rightarrow> Some e | Some e0 \<Rightarrow> Some e0)"

definition store_string :: "json \<Rightarrow> string \<times> json_error option \<Rightarrow> string \<times> json_error option" where
  "store_string j st =
     (case st of (v, saved) \<Rightarrow>
        (case j of
           JNull \<Rightarrow> (v, saved)
         | JBool b \<Rightarrow> (v, saveError (UnmarshalTypeError ''bool'') saved)
         | JNumber n \<Rightarrow> (v, saveError (UnmarshalTypeError ''number'') saved)
         | JString s \<Rightarrow> (s, saved)
         | JArray js \<Rightarrow> (v, saveError (UnmarshalTypeError ''array'') saved)
         | JObject kvs \<Rightarrow> (v, saveError (UnmarshalTypeError ''object'') saved)))"

definition store_float64 :: "json \<Rightarrow> float64 \<times> json_error option \<Rightarrow> float64 \<times> json_error option" where
  "store_float64 j st =
     (case st of (v, saved) \<Rightarrow>
        (case j of
           JNull \<Rightarrow> (v, saved)
         | JBool b \<Rightarrow> (v, saveError (UnmarshalTypeError ''bool'') saved)
         | JNumber n \<Rightarrow>
             (case ParseFloat64 n of
                None \<Rightarrow> (v, saveError (UnmarshalTypeError (''number '' @ n)) saved)
              | Some x \<Rightarrow> (x, saved))
         | JString s \<Rightarrow> (v, saveError (UnmarshalTypeError ''string'') saved)
         | JArray js \<Rightarrow> (v, saveError (UnmarshalTypeError ''array'') saved)
         | JObject kvs \<Rightarrow> (v, saveError (UnmarshalTypeError ''object'') saved)))"

text \<open>
  A key of a JSON object names the field whose tag it equals, or else the field whose tag
  it equals when letter case is folded. Under Unicode simple folding the long s (U+017F)
  folds with \<open>s\<close> and the Kelvin sign (U+212A) with \<open>k\<close>; no other rune folds to an ASCII
  letter. The tags of this library are ASCII.
\<close>

definition toUpper :: "char \<Rightarrow> char" where
  "toUpper c = (if 97 \<le> (of_char c :: nat) \<and> (of_char c :: nat) \<le> 122 then byte (of_char c - 32) else c)"

fun equalFold :: "string \<Rightarrow> string \<Rightarrow> bool" where
  "equalFold key [] = (key = [])"
| "equalFold key (f # fs) =
     (if key = [] then False
      else if (of_char (hd key) :: nat) < 128 then toUpper (hd key) = toUpper f \<and> equalFold (tl key) fs
      else if toUpper f = CHR ''S'' \<and> take 2 key = [byte 197, byte 191] then equalFold (drop 2 key) fs
      else if toUpper f = CHR ''K'' \<and> take 3 key = [byte 226, byte 132, byte 170] then equalFold (drop 3 key) fs
      else False)"

definition find_field :: "string list \<Rightarrow> string \<Rightarrow> string option" where
  "find_field tags key =
     (case filter (\<lambda>t. t = key) tags of
        t # ts \<Rightarrow> Some t
      | [] \<Rightarrow> (case filter (equalFold key) tags of t # ts \<Rightarrow> Some t | [] \<Rightarrow> None))"

text \<open>The error a JSON value of the wrong kind gives when a struct or a slice is expected.\<close>

definition kind_error :: "json \<Rightarrow> json_error" where
  "kind_error j =
     (case j of
        JNull \<Rightarrow> UnmarshalTypeError ''null''
      | JBool b \<Rightarrow> UnmarshalTypeError ''bool''
      | JNumber n \<Rightarrow> UnmarshalTypeError ''number''
      | JString s \<Rightarrow> UnmarshalTypeError ''string''
      | JArray js \<Rightarrow> UnmarshalTypeError ''array''
      | JObject kvs \<Rightarrow> UnmarshalTypeError ''object'')"

section \<open>The library: types of the API\<close>

record Detection =
  Confidence :: float64
  Language :: string

record Language =
  Code :: string
  Name :: string

record TranslateResult =
  DetectedLanguage :: Detection
  TranslatedText :: string

record TranslateResult_noauth =
  TranslatedText_noauth :: string

record apiError =
  Error :: string

definition zero_Detection :: Detection where
  "zero_Detection = \<lparr>Confidence = 0, Language = []\<rparr>"

definition zero_Language :: Language where
  "zero_Language = \<lparr>Code = [], Name = []\<rparr>"

fun object_Detection :: "(string \<times> json) list \<Rightarrow> Detection \<times> json_error option \<Rightarrow> Detection \<times> json_error option" where
  "object_Detection [] st = st"
| "object_Detection ((k, j) # kvs) (d, saved) =
     (case find_field [''confidence'', ''language''] k of
        None \<Rightarrow> object_Detection kvs (d, saved)
      | Some t \<Rightarrow>
          (if t = ''confidence'' then
             (case store_float64 j (Confidence d, saved) of
                (x, saved') \<Rightarrow> object_Detection kvs (d\<lparr>Confidence := x\<rparr>, saved'))
           else
             (case store_string j (Language d, saved) of
                (x, saved') \<Rightarrow> object_Detection kvs (d\<lparr>Language := x\<rparr>, saved'))))"

definition store_Detection :: "json \<Rightarrow> Detection \<times> json_error option \<Rightarrow> Detection \<times> json_error option" where
  "store_Detection j st =
     (case j of
        JNull \<Rightarrow> st
      | JObject kvs \<Rightarrow> object_Detection kvs st
      | _ \<Rightarrow> (fst st, saveError (kind_error j) (snd st)))"

fun array_Detection :: "json list \<Rightarrow> json_error option \<Rightarrow> Detection list \<times> json_error option" where
  "array_Detection [] saved = ([], saved)"
| "array_Detection (j # js) saved =
     (case store_Detection j (zero_Detection, saved) of
        (d, saved') \<Rightarrow>
          (case array_Detection js saved' of (ds, saved'') \<Rightarrow> (d # ds, saved'')))"

fun object_Language :: "(string \<times> json) list \<Rightarrow> Language \<times> json_error option \<Rightarrow> Language \<times> json_error option" where
  "object_Language [] st = st"
| "object_Language ((k, j) # kvs) (l, saved) =
     (case find_field [''code'', ''name''] k of
        None \<Rightarrow> object_Language kvs (l, saved)
      | Some t \<Rightarrow>
          (if t = ''code'' then
             (case store_string j (Code l, saved) of
                (x, saved') \<Rightarrow> object_Language kvs (l\<lparr>Code := x\<rparr>, saved'))
           else
             (case store_string j (Name l, saved) of
                (x, saved') \<Rightarrow> object_Language kvs (l\<lparr>Name := x\<rparr>, saved'))))"

definition store_Language :: "json \<Rightarrow> Language \<times> json_error option \<Rightarrow> Language \<times> json_error option" where
  "store_Language j st =
     (case j of
        JNull \<Rightarrow> st
      | JObject kvs \<Rightarrow> object_Language kvs st
      | _ \<Rightarrow> (fst st, saveError (kind_error j) (snd st)))"

fun array_Language :: "json list \<Rightarrow> json_error option \<Rightarrow> Language list \<times> json_error option" where
  "array_Language [] saved = ([], saved)"
| "array_Language (j # js) saved =
     (case store_Language j (zero_Language, saved) of
        (l, saved') \<Rightarrow>
          (case array_Language js saved' of (ls, saved'') \<Rightarrow> (l # ls, saved'')))"

fun object_TranslateResult :: "(string \<times> json) list \<Rightarrow> TranslateResult \<times> json_error option \<Rightarrow> TranslateResult \<times> json_error option" where
  "object_TranslateResult [] st = st"
| "object_TranslateResult ((k, j) # kvs) (r, saved) =
     (case find_field [''detectedLanguage'', ''translatedText''] k of
        None \<Rightarrow> object_TranslateResult kvs (r, saved)
      | Some t \<Rightarrow>
          (if t = ''detectedLanguage'' then
             (case store_Detection j (DetectedLanguage r, saved) of
                (x, saved') \<Rightarrow> object_TranslateResult kvs (r\<lparr>DetectedLanguage := x\<rparr>, saved'))
           else
             (case store_string j (TranslatedText r, saved) of
                (x, saved') \<Rightarrow> object_TranslateResult kvs (r\<lparr>TranslatedText := x\<rparr>, saved'))))"

fun object_TranslateResult_noauth :: "(string \<times> json) list \<Rightarrow> TranslateResult_noauth \<times> json_error option \<Rightarrow> TranslateResult_noauth \<times> json_error option" where
  "object_TranslateResult_noauth [] st = st"
| "object_TranslateResult_noauth ((k, j) # kvs) (r, saved) =
     (case find_field [''translatedText''] k of
        None \<Rightarrow> object_TranslateResult_noauth kvs (r, saved)
      | Some t \<Rightarrow>
          (case store_string j (TranslatedText_noauth r, saved) of
             (x, saved') \<Rightarrow> object_TranslateResult_noauth kvs (r\<lparr>TranslatedText_noauth := x\<rparr>, saved')))"

fun object_apiError :: "(string \<times> json) list \<Rightarrow> apiError \<times> json_error option \<Rightarrow> apiError \<times> json_error option" where
  "object_apiError [] st = st"
| "object_apiError ((k, j) # kvs) (r, saved) =
     (case find_field [''error''] k of
        None \<Rightarrow> object_apiError kvs (r, saved)
      | Some t \<Rightarrow>
          (case store_string j (Error r, saved) of
             (x, saved') \<Rightarrow> object_apiError kvs (r\<lparr>Error := x\<rparr>, saved')))"

text \<open>
  The four uses of \<open>json.NewDecoder(body).Decode(&result)\<close>, each with the value \<open>result\<close> has
  before the call: an empty slice, or the zero struct. The pair is \<open>result\<close> after the call
  and the error returned. A slice that is \<open>nil\<close> and an empty slice are both \<open>[]\<close>.
\<close>

definition Decode_Detections :: "string \<Rightarrow> Detection list \<times> json_error option" where
  "Decode_Detections body =
     (case readValue body of
        Inl e \<Rightarrow> ([], Some e)
      | Inr j \<Rightarrow>
          (case j of
             JNull \<Rightarrow> ([], None)
           | JArray js \<Rightarrow> array_Detection js None
           | _ \<Rightarrow> ([], Some (kind_error j))))"

definition Decode_Languages :: "string \<Rightarrow> Language list \<times> json_error option" where
  "Decode_Languages body =
     (case readValue body of
        Inl e \<Rightarrow> ([], Some e)
      | Inr j \<Rightarrow>
          (case j of
             JNull \<Rightarrow> ([], None)
           | JArray js \<Rightarrow> array_Language js None
           | _ \<Rightarrow> ([], Some (kind_error j))))"

definition Decode_TranslateResult :: "string \<Rightarrow> TranslateResult \<times> json_error option" where
  "Decode_TranslateResult body =
     (case readValue body of
        Inl e \<Rightarrow> (\<lparr>DetectedLanguage = zero_Detection, TranslatedText = []\<rparr>, Some e)
      | Inr j \<Rightarrow>
          (case j of
             JNull \<Rightarrow> (\<lparr>DetectedLanguage = zero_Detection, TranslatedText = []\<rparr>, None)
           | JObject kvs \<Rightarrow>
               object_TranslateResult kvs (\<lparr>DetectedLanguage = zero_Detection, TranslatedText = []\<rparr>, None)
           | _ \<Rightarrow> (\<lparr>DetectedLanguage = zero_Detection, TranslatedText = []\<rparr>, Some (kind_error j))))"

definition Decode_TranslateResult_noauth :: "string \<Rightarrow> TranslateResult_noauth \<times> json_error option" where
  "Decode_TranslateResult_noauth body =
     (case readValue body of
        Inl e \<Rightarrow> (\<lparr>TranslatedText_noauth = []\<rparr>, Some e)
      | Inr j \<Rightarrow>
          (case j of
             JNull \<Rightarrow> (\<lparr>TranslatedText_noauth = []\<rparr>, None)
           | JObject kvs \<Rightarrow> object_TranslateResult_noauth kvs (\<lparr>TranslatedText_noauth = []\<rparr>, None)
           | _ \<Rightarrow> (\<lparr>TranslatedText_noauth = []\<rparr>, Some (kind_error j))))"

definition Decode_apiError :: "string \<Rightarrow> apiError \<times> json_error option" where
  "Decode_apiError body =
     (case readValue body of
        Inl e \<Rightarrow> (\<lparr>Error = []\<rparr>, Some e)
      | Inr j \<Rightarrow>
          (case j of
             JNull \<Rightarrow> (\<lparr>Error = []\<rparr>, None)
           | JObject kvs \<Rightarrow> object_apiError kvs (\<lparr>Error = []\<rparr>, None)
           | _ \<Rightarrow> (\<lparr>Error = []\<rparr>, Some (kind_error j))))"

section \<open>The library: the request and response gateway\<close>

text \<open>
  \<open>buildRequest\<close> and \<open>checkForResponseErrors\<close> are the same in both files. The client without
  a token has the fields \<open>baseUrl\<close> and \<open>client\<close>, the client with a token has \<open>token\<close> as well;
  \<open>buildRequest\<close> reads \<open>baseUrl\<close> only and so is defined once, for both.
\<close>

record Client_noauth =
  baseUrl :: string
  client :: "Request \<Rightarrow> error + Response"

record Client = Client_noauth +
  token :: string

definition DefaultBaseURL :: string where
  "DefaultBaseURL = ''https://libretranslate.com''"

definition DefaultBaseURL_noauth :: string where
  "DefaultBaseURL_noauth = ''https://translate.argosopentech.com''"

definition NewClient :: "stdlib \<Rightarrow> string \<Rightarrow> Client" where
  "NewClient lib tok = \<lparr>baseUrl = DefaultBaseURL, client = http_DefaultClient lib, token = tok\<rparr>"

definition NewClientWithBaseURL :: "stdlib \<Rightarrow> string \<Rightarrow> string \<Rightarrow> Client" where
  "NewClientWithBaseURL lib baseURL tok =
     \<lparr>baseUrl = baseURL, client = http_DefaultClient lib, token = tok\<rparr>"

definition NewClient_noauth :: "stdlib \<Rightarrow> Client_noauth" where
  "NewClient_noauth lib = \<lparr>baseUrl = DefaultBaseURL_noauth, client = http_DefaultClient lib\<rparr>"

definition buildRequest ::
  "stdlib \<Rightarrow> 'a Client_noauth_scheme \<Rightarrow> string \<Rightarrow> string \<Rightarrow> Values \<Rightarrow> error + Request" where
  "buildRequest lib c method endpoint params =
     (case url_Parse lib (baseUrl c) of
        Inl err \<Rightarrow> Inl (Errorf (''URL parsing error: '' @ err))
      | Inr uri \<Rightarrow>
          (case http_NewRequest lib method
                  (URL_String lib (uri\<lparr>Path := Join [Path uri, endpoint]\<rparr>))
                  (Values_Encode params) of
             Inl err \<Rightarrow> Inl (Errorf (''HTTP request creation error: '' @ err))
           | Inr req \<Rightarrow>
               (if method = MethodPost then
                  Inr (req\<lparr>Header :=
                         Header_Set ''Content-Type'' ''application/x-www-form-urlencoded'' (Header req)\<rparr>)
                else Inr req)))"

definition checkForResponseErrors :: "Response \<Rightarrow> error + string" where
  "checkForResponseErrors res =
     (if StatusCode res \<noteq> 200 then
        (case Decode_apiError (Body res) of
           (result, Some err) \<Rightarrow>
             Inl (Errorf (''API error: non-ok response ('' @ itoa (StatusCode res)
                          @ '') from the API and failed to decode error message''))
         | (result, None) \<Rightarrow>
             Inl (Errorf (''API error: code '' @ itoa (StatusCode res) @ '' - '' @ Error result)))
      else Inr (Body res))"

definition doRequest :: "(Request \<Rightarrow> error + Response) \<Rightarrow> Request \<Rightarrow> error + string" where
  "doRequest cl req =
     (case cl req of
        Inl err \<Rightarrow> Inl err
      | Inr res \<Rightarrow> checkForResponseErrors res)"

section \<open>The library: the operations of the client with a token\<close>

text \<open>
  An operation returns its Go result and the list of the requests it handed to the HTTP
  client, in order.
\<close>

definition Detect :: "stdlib \<Rightarrow> Client \<Rightarrow> string \<Rightarrow> Detection list go_result \<times> Request list" where
  "Detect lib c q =
     (let params = Values_Set ''api_key'' (token c) (Values_Set ''q'' q []) in
      case buildRequest lib c MethodPost ''/detect'' params of
        Inl err \<Rightarrow> (Return [] (Some err), [])
      | Inr req \<Rightarrow>
          (case doRequest (client c) req of
             Inl err \<Rightarrow> (Return [] (Some err), [req])
           | Inr responseBody \<Rightarrow>
               (case Decode_Detections responseBody of
                  (result, err) \<Rightarrow> (Return result (map_option JSONError err), [req]))))"

definition GetLanguages :: "stdlib \<Rightarrow> Client \<Rightarrow> Language list go_result \<times> Request list" where
  "GetLanguages lib c =
     (let params = Values_Set ''api_key'' (token c) [] in
      case buildRequest lib c MethodGet ''/languages'' params of
        Inl err \<Rightarrow> (Return [] (Some err), [])
      | Inr req \<Rightarrow>
          (case doRequest (client c) req of
             Inl err \<Rightarrow> (Return [] (Some err), [req])
           | Inr responseBody \<Rightarrow>
               (case Decode_Languages responseBody of
                  (result, err) \<Rightarrow> (Return result (map_option JSONError err), [req]))))"

definition Translate ::
  "stdlib \<Rightarrow> Client \<Rightarrow> string \<Rightarrow> string \<Rightarrow> string \<Rightarrow> string go_result \<times> Request list" where
  "Translate lib c query source target =
     (let params = Values_Set ''api_key'' (token c)
                     (Values_Set ''target'' target
                        (Values_Set ''source'' source (Values_Set ''q'' query []))) in
      case buildRequest lib c MethodPost ''/translate'' params of
        Inl err \<Rightarrow> (Return [] (Some err), [])
      | Inr req \<Rightarrow>
          (case doRequest (client c) req of
             Inl err \<Rightarrow> (Return [] (Some err), [req])
           | Inr responseBody \<Rightarrow>
               (case Decode_TranslateResult responseBody of
                  (result, Some err) \<Rightarrow> (Return [] (Some (JSONError err)), [req])
                | (result, None) \<Rightarrow> (Return (TranslatedText result) None, [req]))))"

section \<open>The library: the operations of the client without a token\<close>

text \<open>
  The operations of this file call \<open>c.client.Do(req)\<close> themselves. \<open>client_Do\<close> is that call
  on a request that may be \<open>nil\<close>: the HTTP client reads \<open>req.URL\<close> first, so a nil request is
  a nil pointer dereference (\<open>None\<close>) and nothing is sent. The field \<open>client\<close> itself is never
  nil: every constructor sets it.
\<close>

definition client_Do :: "(Request \<Rightarrow> error + Response) \<Rightarrow> Request option \<Rightarrow> (error + Response) option" where
  "client_Do cl req = (case req of None \<Rightarrow> None | Some r \<Rightarrow> Some (cl r))"

definition Detect_noauth ::
  "stdlib \<Rightarrow> Client_noauth \<Rightarrow> string \<Rightarrow> Detection list go_result \<times> Request list" where
  "Detect_noauth lib c q =
     (let params = Values_Set ''q'' q [] in
      case buildRequest lib c MethodPost ''/detect'' params of
        Inl err \<Rightarrow> (Return [] (Some err), [])
      | Inr req \<Rightarrow>
          (case client c req of
             Inl err \<Rightarrow> (Return [] (Some err), [req])
           | Inr res \<Rightarrow>
               (case checkForResponseErrors res of
                  Inl err \<Rightarrow> (Return [] (Some err), [req])
                | Inr responseBody \<Rightarrow>
                    (case Decode_Detections responseBody of
                       (result, Some err) \<Rightarrow> (Return [] (Some (JSONError err)), [req])
                     | (result, None) \<Rightarrow> (Return result None, [req])))))"

text \<open>
  \<open>GetLanguages\<close> of this file does not look at the error of \<open>buildRequest\<close>: it goes on with
  the request, which is \<open>nil\<close> when there is an error.
\<close>

definition GetLanguages_noauth ::
  "stdlib \<Rightarrow> Client_noauth \<Rightarrow> Language list go_result \<times> Request list" where
  "GetLanguages_noauth lib c =
     (let req = (case buildRequest lib c MethodGet ''/languages'' [] of
                   Inl err \<Rightarrow> None
                 | Inr r \<Rightarrow> Some r);
          sent = (case req of None \<Rightarrow> [] | Some r \<Rightarrow> [r]) in
      case client_Do (client c) req of
        None \<Rightarrow> (Panic, [])
      | Some (Inl err) \<Rightarrow> (Return [] (Some err), sent)
      | Some (Inr res) \<Rightarrow>
          (case checkForResponseErrors res of
             Inl err \<Rightarrow> (Return [] (Some err), sent)
           | Inr responseBody \<Rightarrow>
               (case Decode_Languages responseBody of
                  (result, Some err) \<Rightarrow> (Return result (Some (JSONError err)), sent)
                | (result, None) \<Rightarrow> (Return result None, sent))))"

definition Translate_noauth ::
  "stdlib \<Rightarrow> Client_noauth \<Rightarrow> string \<Rightarrow> string \<Rightarrow> string \<Rightarrow> string go_result \<times> Request list" where
  "Translate_noauth lib c query source target =
     (let params = Values_Set ''target'' target
                     (Values_Set ''source'' source (Values_Set ''q'' query [])) in
      case buildRequest lib c MethodPost ''/translate'' params of
        Inl err \<Rightarrow> (Return [] (Some err), [])
      | Inr req \<Rightarrow>
          (case client c req of
             Inl err \<Rightarrow> (Return [] (Some err), [req])
           | Inr res \<Rightarrow>
               (case checkForResponseErrors res of
                  Inl err \<Rightarrow> (Return [] (Some err), [req])
                | Inr responseBody \<Rightarrow>
                    (case Decode_TranslateResult_noauth responseBody of
                       (result, Some err) \<Rightarrow> (Return [] (Some (JSONError err)), [req])
                     | (result, None) \<Rightarrow> (Return (TranslatedText_noauth result) None, [req])))))"

section \<open>An environment for the examples\<close>

text \<open>
  The examples run the operations against a fixed environment. Its URL parser knows the
  URLs \<open>scheme://host/path\<close> and \<open>scheme://host/path?query\<close> written with letters, digits,
  \<open>.\<close>, \<open>-\<close>, \<open>_\<close> and \<open>/\<close> (and \<open>=\<close>, \<open>&\<close> in the query), on which it agrees with \<open>net/url\<close>, and
  the string \<open>:\<close>, which \<open>net/url\<close> refuses; the examples use no other string. Its HTTP client
  \<open>respond s b\<close> answers every request with the status \<open>s\<close> and the body \<open>b\<close>.
\<close>

definition plain_char :: "char \<Rightarrow> bool" where
  "plain_char c = (isAlnum c \<or> c \<in> set ''-_./'')"

definition query_char :: "char \<Rightarrow> bool" where
  "query_char c = (isAlnum c \<or> c \<in> set ''-_.=&'')"

definition example_Parse :: "string \<Rightarrow> string + URL" where
  "example_Parse s =
     (let front = takeWhile (\<lambda>c. c \<noteq> CHR ''?'') s;
          back = dropWhile (\<lambda>c. c \<noteq> CHR ''?'') s;
          scheme = takeWhile (\<lambda>c. c \<noteq> CHR '':'') front;
          rest = drop (length scheme + 3) front;
          host = takeWhile (\<lambda>c. c \<noteq> CHR ''/'') rest;
          path = dropWhile (\<lambda>c. c \<noteq> CHR ''/'') rest
      in if s = '':'' then Inl ''parse \":\": missing protocol scheme''
         else if scheme \<noteq> [] \<and> list_all (\<lambda>c. c \<in> set ''abcdefghijklmnopqrstuvwxyz'') scheme
                 \<and> take 3 (drop (length scheme) front) = ''://''
                 \<and> host \<noteq> [] \<and> list_all plain_char rest
                 \<and> (back = [] \<or> tl back \<noteq> [] \<and> list_all query_char (tl back))
         then Inr \<lparr>Scheme = scheme, Opaque = [], User = None, Host = host, Path = path,
                   RawPath = [], OmitHost = False, ForceQuery = False,
                   RawQuery = (if back = [] then [] else tl back),
                   Fragment = [], RawFragment = []\<rparr>
         else Inl ''not a URL of the examples'')"

definition example_String :: "URL \<Rightarrow> string" where
  "example_String u =
     Scheme u @ ''://'' @ Host u
       @ (if Path u \<noteq> [] \<and> hd (Path u) \<noteq> CHR ''/'' then ''/'' else []) @ Path u
       @ (if RawQuery u \<noteq> [] then ''?'' @ RawQuery u else [])"

definition respond :: "int \<Rightarrow> string \<Rightarrow> Request \<Rightarrow> error + Response" where
  "respond s b req = Inr \<lparr>StatusCode = s, Body = b\<rparr>"

definition example_lib :: stdlib where
  "example_lib =
     \<lparr>url_Parse = example_Parse, URL_String = example_String,
      strconv_Quote = (\<lambda>s. [char_of (34 :: nat)] @ s @ [char_of (34 :: nat)]),
      http_DefaultClient = respond 200 []\<rparr>"

section \<open>The JSON shapes of the service\<close>



section \<open>The path of the request URL, in words\<close>

text \<open>
  The segments of a path are its maximal runs of bytes other than the slash. The joined
  path of a base path and an endpoint is made of the segments of the base path followed by
  those of the endpoint, with exactly one slash between two neighbours; it starts with a
  slash when the base path does, or when the base path is empty and the endpoint starts
  with a slash. A path has plain segments when none of them is \<open>.\<close> or \<open>..\<close>.
\<close>

function segments :: "string \<Rightarrow> string list" where
  "segments [] = []"
| "segments (c # rest) =
     (if c = CHR ''/'' then segments rest
      else (c # takeWhile (\<lambda>x. x \<noteq> CHR ''/'') rest) # segments (dropWhile (\<lambda>x. x \<noteq> CHR ''/'') rest))"
  by pat_completeness auto
termination
proof (relation "measure length")
  show "wf (measure length)" by simp
qed (auto simp: length_dropWhile_le less_Suc_eq_le)

definition rooted_join :: "string \<Rightarrow> string \<Rightarrow> bool" where
  "rooted_join base endpoint =
     (base \<noteq> [] \<and> hd base = CHR ''/'' \<or> base = [] \<and> endpoint \<noteq> [] \<and> hd endpoint = CHR ''/'')"

definition joined_path :: "string \<Rightarrow> string \<Rightarrow> string" where
  "joined_path base endpoint =
     (if rooted_join base endpoint then ''/'' else [])
       @ join_with ''/'' (segments base @ segments endpoint)"

definition plain_segments :: "string \<Rightarrow> bool" where
  "plain_segments p = list_all (\<lambda>s. s \<noteq> ''.'' \<and> s \<noteq> ''..'') (segments p)"

section \<open>Properties: building the request\<close>

lemma sum_is_Inr: "(case x of Inl a \<Rightarrow> False | Inr b \<Rightarrow> True) \<Longrightarrow> \<exists>r. x = Inr r"
  by (cases x) auto

lemma singleton_list: "length xs = Suc 0 \<Longrightarrow> \<exists>x. xs = [x]"
  by (cases xs) auto

lemma MethodGet_neq_MethodPost: "MethodGet \<noteq> MethodPost"
  by (simp add: MethodGet_def MethodPost_def)

lemma http_NewRequest_Inr:
  assumes "http_NewRequest lib method url body = Inr req"
  shows "Header req = Map.empty \<and> ReqBody req = body
         \<and> Method req = (if method = [] then ''GET'' else method)
         \<and> (\<exists>u. url_Parse lib url = Inr u \<and> URL req = u\<lparr>Host := removeEmptyPort (Host u)\<rparr>)"
  using assms
  by (auto simp: http_NewRequest_def Let_def split: if_splits sum.splits)

text \<open>
  C5. Every request that \<open>buildRequest\<close> builds carries the header
  \<open>Content-Type: application/x-www-form-urlencoded\<close> when the method is POST, and no
  \<open>Content-Type\<close> header when the method is GET, whatever the parameters are.
\<close>

theorem buildRequest_content_type:
  assumes "buildRequest lib c method endpoint params = Inr req"
  shows "(method = MethodPost \<longrightarrow>
            Header req ''Content-Type'' = Some [''application/x-www-form-urlencoded''])
         \<and> (method = MethodGet \<longrightarrow> Header req ''Content-Type'' = None)"
proof -
  from assms obtain uri r where
    r: "http_NewRequest lib method (URL_String lib (uri\<lparr>Path := Join [Path uri, endpoint]\<rparr>))
          (Values_Encode params) = Inr r"
    and req: "req = (if method = MethodPost
                     then r\<lparr>Header := Header_Set ''Content-Type'' ''application/x-www-form-urlencoded'' (Header r)\<rparr>
                     else r)"
    by (auto simp: buildRequest_def split: sum.splits if_splits)
  from http_NewRequest_Inr[OF r] have "Header r = Map.empty" by simp
  with req show ?thesis
    by (simp add: Header_Set_def MethodGet_neq_MethodPost)
qed

theorem buildRequest_content_type_witness:
  "(\<exists>req. buildRequest example_lib (NewClient example_lib ''k'') MethodPost ''/detect''
             [(''q'', [''Hello''])] = Inr req
          \<and> Header req ''Content-Type'' = Some [''application/x-www-form-urlencoded''])
   \<and> (\<exists>req. buildRequest example_lib (NewClient example_lib ''k'') MethodGet ''/languages''
             [(''api_key'', [''k''])] = Inr req
          \<and> Header req ''Content-Type'' = None)"
proof -
  have "case buildRequest example_lib (NewClient example_lib ''k'') MethodPost ''/detect''
             [(''q'', [''Hello''])] of Inl a \<Rightarrow> False | Inr b \<Rightarrow> True"
    by code_simp
  then obtain r1 where r1: "buildRequest example_lib (NewClient example_lib ''k'') MethodPost ''/detect''
             [(''q'', [''Hello''])] = Inr r1"
    using sum_is_Inr by blast
  have "case buildRequest example_lib (NewClient example_lib ''k'') MethodGet ''/languages''
             [(''api_key'', [''k''])] of Inl a \<Rightarrow> False | Inr b \<Rightarrow> True"
    by code_simp
  then obtain r2 where r2: "buildRequest example_lib (NewClient example_lib ''k'') MethodGet ''/languages''
             [(''api_key'', [''k''])] = Inr r2"
    using sum_is_Inr by blast
  from buildRequest_content_type[OF r1] buildRequest_content_type[OF r2] r1 r2
  show ?thesis by simp
qed

section \<open>Properties: checking the response\<close>






section \<open>Properties: the parameters sent\<close>

lemma sort_keys4: "sort [''api_key'', ''target'', ''source'', ''q''] = [''api_key'', ''q'', ''source'', ''target'']"
  by code_simp
lemma sort_keys3: "sort [''target'', ''source'', ''q''] = [''q'', ''source'', ''target'']"
  by code_simp

lemma Encode_Translate_params:
  "Values_Encode (Values_Set ''api_key'' t (Values_Set ''target'' tg (Values_Set ''source'' s (Values_Set ''q'' q []))))
   = ''api_key='' @ QueryEscape t @ ''&q='' @ QueryEscape q @ ''&source='' @ QueryEscape s @ ''&target='' @ QueryEscape tg"
proof -
  have k: "QueryEscape ''api_key'' = ''api_key''" "QueryEscape ''q'' = ''q''"
    "QueryEscape ''source'' = ''source''" "QueryEscape ''target'' = ''target''"
    by code_simp+
  show ?thesis
    by (simp add: Values_Encode_def Values_Set_def sort_keys4 k)
qed

lemma Encode_Translate_noauth_params:
  "Values_Encode (Values_Set ''target'' tg (Values_Set ''source'' s (Values_Set ''q'' q [])))
   = ''q='' @ QueryEscape q @ ''&source='' @ QueryEscape s @ ''&target='' @ QueryEscape tg"
proof -
  have k: "QueryEscape ''q'' = ''q''"
    "QueryEscape ''source'' = ''source''" "QueryEscape ''target'' = ''target''"
    by code_simp+
  show ?thesis
    by (simp add: Values_Encode_def Values_Set_def sort_keys3 k)
qed


lemma Encode_Detect_noauth_params:
  "Values_Encode (Values_Set ''q'' q []) = ''q='' @ QueryEscape q"
proof -
  have k: "QueryEscape ''q'' = ''q''"
    by code_simp+
  show ?thesis
    by (simp add: Values_Encode_def Values_Set_def k)
qed

lemma Encode_GetLanguages_params:
  "Values_Encode (Values_Set ''api_key'' t []) = ''api_key='' @ QueryEscape t"
proof -
  have k: "QueryEscape ''api_key'' = ''api_key''"
    by code_simp+
  show ?thesis
    by (simp add: Values_Encode_def Values_Set_def k)
qed

lemma Encode_empty: "Values_Encode [] = []"
  by (simp add: Values_Encode_def)

lemma buildRequest_body:
  assumes "buildRequest lib c method endpoint params = Inr req"
  shows "ReqBody req = Values_Encode params"
    and "Method req = (if method = [] then ''GET'' else method)"
proof -
  from assms obtain uri r where
    r: "http_NewRequest lib method (URL_String lib (uri\<lparr>Path := Join [Path uri, endpoint]\<rparr>))
          (Values_Encode params) = Inr r"
    and req: "req = (if method = MethodPost
                     then r\<lparr>Header := Header_Set ''Content-Type'' ''application/x-www-form-urlencoded'' (Header r)\<rparr>
                     else r)"
    by (auto simp: buildRequest_def split: sum.splits if_splits)
  from http_NewRequest_Inr[OF r] req show "ReqBody req = Values_Encode params"
    and "Method req = (if method = [] then ''GET'' else method)"
    by auto
qed

lemma Translate_dispatched:
  assumes "snd (Translate lib c query source target) = [req]"
  shows "buildRequest lib c MethodPost ''/translate''
           (Values_Set ''api_key'' (token c) (Values_Set ''target'' target
              (Values_Set ''source'' source (Values_Set ''q'' query [])))) = Inr req"
  using assms
  by (auto simp: Translate_def Let_def split: sum.splits prod.splits option.splits)


lemma GetLanguages_dispatched:
  assumes "snd (GetLanguages lib c) = [req]"
  shows "buildRequest lib c MethodGet ''/languages'' (Values_Set ''api_key'' (token c) []) = Inr req"
  using assms
  by (auto simp: GetLanguages_def Let_def split: sum.splits prod.splits option.splits)

section \<open>Properties: the value decoded from a 200 response\<close>

lemma float64_overflow_eq: "float64_overflow = 2 ^ 1024 - 2 ^ 970"
  by (simp add: float64_overflow_def)







lemma doRequest_200:
  assumes "cl req = Inr res" and "StatusCode res = 200"
  shows "doRequest cl req = Inr (Body res)"
  using assms by (simp add: doRequest_def checkForResponseErrors_def)



lemma Decode_TranslateResult_Bonjour:
  "Decode_TranslateResult ''{\"translatedText\":\"Bonjour\"}''
     = (\<lparr>DetectedLanguage = \<lparr>Confidence = 0, Language = []\<rparr>, TranslatedText = ''Bonjour''\<rparr>, None)"
  by code_simp

lemma Decode_TranslateResult_Bonjour_detected:
  "Decode_TranslateResult
     ''{\"detectedLanguage\":{\"confidence\":90,\"language\":\"en\"},\"translatedText\":\"Bonjour\"}''
     = (\<lparr>DetectedLanguage = \<lparr>Confidence = 90, Language = ''en''\<rparr>, TranslatedText = ''Bonjour''\<rparr>, None)"
  by code_simp

text \<open>
  C6. \<open>Translate\<close> sends a POST request whose body holds the parameters \<open>q\<close>, \<open>source\<close> and
  \<open>target\<close> (and \<open>api_key\<close>). When the response has the status 200 and its body decodes,
  \<open>Translate\<close> returns the field \<open>TranslatedText\<close> of the decoded value and nothing else of it;
  for the body \<open>{"translatedText":"Bonjour"}\<close> it returns the string \<open>Bonjour\<close>, also when the
  body has the member \<open>detectedLanguage\<close> as well.
\<close>

theorem Translate_returns_translated_text:
  "(snd (Translate lib c query source target) = [req] \<longrightarrow>
      Method req = ''POST''
      \<and> ReqBody req = ''api_key='' @ QueryEscape (token c) @ ''&q='' @ QueryEscape query
                        @ ''&source='' @ QueryEscape source @ ''&target='' @ QueryEscape target)
   \<and> (snd (Translate lib c query source target) = [req] \<and> client c req = Inr res
        \<and> StatusCode res = 200 \<longrightarrow>
        (\<forall>result. Decode_TranslateResult (Body res) = (result, None) \<longrightarrow>
           fst (Translate lib c query source target) = Return (TranslatedText result) None)
        \<and> (Body res = ''{\"translatedText\":\"Bonjour\"}'' \<longrightarrow>
           fst (Translate lib c query source target) = Return ''Bonjour'' None)
        \<and> (Body res = ''{\"detectedLanguage\":{\"confidence\":90,\"language\":\"en\"},\"translatedText\":\"Bonjour\"}'' \<longrightarrow>
           fst (Translate lib c query source target) = Return ''Bonjour'' None))"
proof -
  have sent: "Method req = ''POST''
      \<and> ReqBody req = ''api_key='' @ QueryEscape (token c) @ ''&q='' @ QueryEscape query
                        @ ''&source='' @ QueryEscape source @ ''&target='' @ QueryEscape target"
    if "snd (Translate lib c query source target) = [req]"
    using buildRequest_body[OF Translate_dispatched[OF that]]
    by (simp add: Encode_Translate_params MethodPost_def)
  have decoded: "fst (Translate lib c query source target) = Return (TranslatedText result) None"
    if "snd (Translate lib c query source target) = [req]" "client c req = Inr res"
      "StatusCode res = 200" "Decode_TranslateResult (Body res) = (result, None)" for result
    using Translate_dispatched[OF that(1)] doRequest_200[of "client c" req res] that
    by (simp add: Translate_def)
  show ?thesis
    using sent decoded Decode_TranslateResult_Bonjour Decode_TranslateResult_Bonjour_detected
    by (metis TranslateResult.select_convs(2))
qed

theorem Translate_returns_translated_text_witness:
  "fst (Translate example_lib
          \<lparr>baseUrl = DefaultBaseURL, client = respond 200 ''{\"translatedText\":\"Bonjour\"}'', token = ''k''\<rparr>
          ''Hello'' ''en'' ''fr'') = Return ''Bonjour'' None
   \<and> map ReqBody (snd (Translate example_lib
          \<lparr>baseUrl = DefaultBaseURL, client = respond 200 ''{\"translatedText\":\"Bonjour\"}'', token = ''k''\<rparr>
          ''Hello'' ''en'' ''fr'')) = [''api_key=k&q=Hello&source=en&target=fr'']"
proof -
  let ?c = "\<lparr>baseUrl = DefaultBaseURL, client = respond 200 ''{\"translatedText\":\"Bonjour\"}'', token = ''k''\<rparr>"
  have "length (snd (Translate example_lib ?c ''Hello'' ''en'' ''fr'')) = Suc 0"
    by code_simp
  then obtain req where req: "snd (Translate example_lib ?c ''Hello'' ''en'' ''fr'') = [req]"
    using singleton_list by blast
  have res: "client ?c req = Inr \<lparr>StatusCode = 200, Body = ''{\"translatedText\":\"Bonjour\"}''\<rparr>"
    by (simp add: respond_def)
  have esc: "QueryEscape ''k'' = ''k''" "QueryEscape ''Hello'' = ''Hello''"
    "QueryEscape ''en'' = ''en''" "QueryEscape ''fr'' = ''fr''"
    by code_simp+
  from Translate_returns_translated_text[where lib = example_lib and c = ?c and query = "''Hello''"
      and source = "''en''" and target = "''fr''" and req = req
      and res = "\<lparr>StatusCode = 200, Body = ''{\"translatedText\":\"Bonjour\"}''\<rparr>"] req res esc
  show ?thesis by simp
qed




lemma dispatched_at_most_one:
  "length (snd (Detect lib c q)) \<le> 1"
  "length (snd (GetLanguages lib c)) \<le> 1"
  "length (snd (Translate lib c query source target)) \<le> 1"
  by (auto simp: Detect_def GetLanguages_def Translate_def Let_def
      split: sum.splits prod.splits option.splits)

lemma member_singleton: "length xs \<le> 1 \<Longrightarrow> x \<in> set xs \<Longrightarrow> xs = [x]"
  by (cases xs) auto


lemma GetLanguages_sends:
  assumes "req \<in> set (snd (GetLanguages lib c))"
  shows "snd (GetLanguages lib c) = [req]"
    and "buildRequest lib c MethodGet ''/languages'' (Values_Set ''api_key'' (token c) []) = Inr req"
proof -
  show 1: "snd (GetLanguages lib c) = [req]"
    using assms dispatched_at_most_one(2)[of lib c] member_singleton[of "snd (GetLanguages lib c)" req]
    by simp
  show "buildRequest lib c MethodGet ''/languages'' (Values_Set ''api_key'' (token c) []) = Inr req"
    by (rule GetLanguages_dispatched[OF 1])
qed








lemma buildRequest_url_independent:
  assumes "buildRequest lib c method endpoint params = Inr req"
  shows "\<exists>req'. buildRequest lib c method endpoint params' = Inr req'
           \<and> URL req' = URL req \<and> Method req' = Method req \<and> Header req' = Header req"
proof -
  from assms obtain uri r where
    u: "url_Parse lib (baseUrl c) = Inr uri" and
    r: "http_NewRequest lib method (URL_String lib (uri\<lparr>Path := Join [Path uri, endpoint]\<rparr>))
          (Values_Encode params) = Inr r"
    and req: "req = (if method = MethodPost
                     then r\<lparr>Header := Header_Set ''Content-Type'' ''application/x-www-form-urlencoded'' (Header r)\<rparr>
                     else r)"
    by (auto simp: buildRequest_def split: sum.splits if_splits)
  from r have r': "http_NewRequest lib method (URL_String lib (uri\<lparr>Path := Join [Path uri, endpoint]\<rparr>))
          (Values_Encode params') = Inr (r\<lparr>ReqBody := Values_Encode params'\<rparr>)"
    by (auto simp: http_NewRequest_def Let_def split: if_splits sum.splits)
  from u r' req show ?thesis
    by (simp add: buildRequest_def)
qed

lemma buildRequest_request_URL:
  assumes "buildRequest lib c method endpoint params = Inr req"
  shows "\<exists>uri u. url_Parse lib (baseUrl c) = Inr uri
           \<and> url_Parse lib (URL_String lib (uri\<lparr>Path := Join [Path uri, endpoint]\<rparr>)) = Inr u
           \<and> URL req = u\<lparr>Host := removeEmptyPort (Host u)\<rparr>"
proof -
  from assms obtain uri r where
    u: "url_Parse lib (baseUrl c) = Inr uri" and
    r: "http_NewRequest lib method (URL_String lib (uri\<lparr>Path := Join [Path uri, endpoint]\<rparr>))
          (Values_Encode params) = Inr r"
    and req: "req = (if method = MethodPost
                     then r\<lparr>Header := Header_Set ''Content-Type'' ''application/x-www-form-urlencoded'' (Header r)\<rparr>
                     else r)"
    by (auto simp: buildRequest_def split: sum.splits if_splits)
  from http_NewRequest_Inr[OF r] u req show ?thesis
    by auto
qed

text \<open>
  C9 (amended). For every method, GET included, the body of the request \<open>buildRequest\<close>
  builds is the form encoding of the parameters, and its URL does not depend on the
  parameters: with any other parameters \<open>buildRequest\<close> succeeds as well, with the same URL,
  which is what the URL parser reads back from the print of the parsed base URL with the
  joined path; nothing but the path of the base URL is changed, so the query of the base
  URL is kept. In particular every request of \<open>GetLanguages\<close> of the client with a token is a
  GET request with the body \<open>api_key=<token>\<close> and the URL of the request built with no
  parameters at all.
\<close>

theorem parameters_in_body_not_in_URL:
  "(buildRequest lib c method endpoint params = Inr req \<longrightarrow>
      ReqBody req = Values_Encode params
      \<and> (\<forall>params'. \<exists>req'. buildRequest lib c method endpoint params' = Inr req'
                              \<and> URL req' = URL req)
      \<and> (\<exists>uri u. url_Parse lib (baseUrl c) = Inr uri
           \<and> url_Parse lib (URL_String lib (uri\<lparr>Path := Join [Path uri, endpoint]\<rparr>)) = Inr u
           \<and> URL req = u\<lparr>Host := removeEmptyPort (Host u)\<rparr>))
   \<and> (\<forall>r\<in>set (snd (GetLanguages lib c)).
        Method r = ''GET'' \<and> ReqBody r = ''api_key='' @ QueryEscape (token c)
        \<and> (\<exists>r0. buildRequest lib c MethodGet ''/languages'' [] = Inr r0 \<and> URL r = URL r0))"
proof -
  have 1: "ReqBody req = Values_Encode params
      \<and> (\<forall>params'. \<exists>req'. buildRequest lib c method endpoint params' = Inr req'
                              \<and> URL req' = URL req)
      \<and> (\<exists>uri u. url_Parse lib (baseUrl c) = Inr uri
           \<and> url_Parse lib (URL_String lib (uri\<lparr>Path := Join [Path uri, endpoint]\<rparr>)) = Inr u
           \<and> URL req = u\<lparr>Host := removeEmptyPort (Host u)\<rparr>)"
    if b: "buildRequest lib c method endpoint params = Inr req"
    using buildRequest_body(1)[OF b] buildRequest_url_independent[OF b]
      buildRequest_request_URL[OF b] by blast
  have 2: "Method r = ''GET'' \<and> ReqBody r = ''api_key='' @ QueryEscape (token c)
        \<and> (\<exists>r0. buildRequest lib c MethodGet ''/languages'' [] = Inr r0 \<and> URL r = URL r0)"
    if "r \<in> set (snd (GetLanguages lib c))" for r
  proof -
    note b = GetLanguages_sends(2)[OF that]
    from buildRequest_body[OF b] have m: "Method r = ''GET''"
      and body: "ReqBody r = ''api_key='' @ QueryEscape (token c)"
      by (simp_all add: MethodGet_def Encode_GetLanguages_params)
    from buildRequest_url_independent[OF b, of "[]"]
    have "\<exists>r0. buildRequest lib c MethodGet ''/languages'' [] = Inr r0 \<and> URL r = URL r0"
      by auto
    with m body show ?thesis by simp
  qed
  show ?thesis
    by (intro conjI ballI impI 1 2)
qed

theorem parameters_in_body_not_in_URL_witness:
  "map (\<lambda>r. (Method r, ReqBody r, Path (URL r), RawQuery (URL r)))
       (snd (GetLanguages example_lib (NewClient example_lib ''secret'')))
     = [(''GET'', ''api_key=secret'', ''/languages'', [])]"
proof -
  let ?c = "NewClient example_lib ''secret''"
  have "length (snd (GetLanguages example_lib ?c)) = Suc 0"
    by code_simp
  then obtain r where r: "snd (GetLanguages example_lib ?c) = [r]"
    using singleton_list by blast
  have e: "QueryEscape ''secret'' = ''secret''" by code_simp
  have t: "token ?c = ''secret''" by (simp add: NewClient_def)
  have u: "case buildRequest example_lib ?c MethodGet ''/languages'' [] of
             Inl a \<Rightarrow> False
           | Inr r0 \<Rightarrow> Path (URL r0) = ''/languages'' \<and> RawQuery (URL r0) = []"
    by code_simp
  from parameters_in_body_not_in_URL[where lib = example_lib and c = ?c] r
  have "Method r = ''GET'' \<and> ReqBody r = ''api_key='' @ QueryEscape (token ?c)
        \<and> (\<exists>r0. buildRequest example_lib ?c MethodGet ''/languages'' [] = Inr r0 \<and> URL r = URL r0)"
    by simp
  with u e t have "Method r = ''GET'' \<and> ReqBody r = ''api_key=secret''
      \<and> Path (URL r) = ''/languages'' \<and> RawQuery (URL r) = []"
    by auto
  with r show ?thesis by simp
qed

text \<open>
  C9 as stated fails in its last part for a base URL that has a query: the request URL
  of \<open>GetLanguages\<close> then carries the query parameters of the base URL (never \<open>api_key\<close>).
\<close>

theorem base_URL_query_counterexample:
  "map (\<lambda>r. (Method r, ReqBody r, Path (URL r), RawQuery (URL r)))
       (snd (GetLanguages example_lib
          (NewClientWithBaseURL example_lib ''https://libretranslate.com/?lang=en'' ''secret'')))
     = [(''GET'', ''api_key=secret'', ''/languages'', ''lang=en'')]"
  by code_simp

section \<open>Properties: the path of the request URL\<close>

declare segments.simps(2) [simp del]
declare clean_loop.simps(2) [simp del]

lemma segments_slash: "segments (CHR ''/'' # rest) = segments rest"
  by (simp add: segments.simps(2))

lemma segments_char:
  "c \<noteq> CHR ''/'' \<Longrightarrow> segments (c # rest)
     = (c # takeWhile (\<lambda>x. x \<noteq> CHR ''/'') rest) # segments (dropWhile (\<lambda>x. x \<noteq> CHR ''/'') rest)"
  by (simp add: segments.simps(2))

lemma segments_nonempty: "s \<in> set (segments p) \<Longrightarrow> s \<noteq> []"
proof (induction p rule: segments.induct)
  case 1
  then show ?case by simp
next
  case (2 c rest)
  show ?case
  proof (cases "c = CHR ''/''")
    case True
    with 2 show ?thesis by (simp add: segments_slash)
  next
    case False
    with 2 show ?thesis by (auto simp: segments_char)
  qed
qed

lemma takeWhile_sep_append:
  "takeWhile (\<lambda>x. x \<noteq> s) (xs @ s # ys) = takeWhile (\<lambda>x. x \<noteq> s) xs"
  by (induction xs) simp_all

lemma dropWhile_sep_append:
  "dropWhile (\<lambda>x. x \<noteq> s) (xs @ s # ys) = dropWhile (\<lambda>x. x \<noteq> s) xs @ s # ys"
  by (induction xs) simp_all

lemma segments_append_slash: "segments (xs @ CHR ''/'' # ys) = segments xs @ segments ys"
proof (induction xs rule: segments.induct)
  case 1
  then show ?case by (simp add: segments_slash)
next
  case (2 c rest)
  show ?case
  proof (cases "c = CHR ''/''")
    case True
    with 2 show ?thesis by (simp add: segments_slash)
  next
    case False
    have t: "takeWhile (\<lambda>x. x \<noteq> CHR ''/'') (rest @ CHR ''/'' # ys) = takeWhile (\<lambda>x. x \<noteq> CHR ''/'') rest"
      by (rule takeWhile_sep_append)
    have d: "dropWhile (\<lambda>x. x \<noteq> CHR ''/'') (rest @ CHR ''/'' # ys)
             = dropWhile (\<lambda>x. x \<noteq> CHR ''/'') rest @ CHR ''/'' # ys"
      by (rule dropWhile_sep_append)
    have "segments ((c # rest) @ CHR ''/'' # ys)
          = (c # takeWhile (\<lambda>x. x \<noteq> CHR ''/'') rest)
              # segments (dropWhile (\<lambda>x. x \<noteq> CHR ''/'') rest @ CHR ''/'' # ys)"
      using False t d by (simp add: segments_char)
    also have "\<dots> = (c # takeWhile (\<lambda>x. x \<noteq> CHR ''/'') rest)
              # (segments (dropWhile (\<lambda>x. x \<noteq> CHR ''/'') rest) @ segments ys)"
      using 2(2)[OF False] by simp
    also have "\<dots> = segments (c # rest) @ segments ys"
      using False by (simp add: segments_char)
    finally show ?thesis .
  qed
qed

lemma clean_loop_ordinary:
  assumes "\<forall>s\<in>set (segments p). s \<noteq> ''.'' \<and> s \<noteq> ''..''"
  shows "clean_loop rooted out dotdot p
         = foldl (\<lambda>buf s. (if rooted \<and> length buf \<noteq> 1 \<or> \<not> rooted \<and> length buf \<noteq> 0
                             then buf @ ''/'' else buf) @ s) out (segments p)"
  using assms
proof (induction p arbitrary: out rule: segments.induct)
  case 1
  then show ?case by simp
next
  case (2 c rest)
  show ?case
  proof (cases "c = CHR ''/''")
    case True
    with 2 show ?thesis by (simp add: segments_slash clean_loop.simps(2))
  next
    case False
    let ?seg = "c # takeWhile (\<lambda>x. x \<noteq> CHR ''/'') rest"
    from False 2(3) have ord: "?seg \<noteq> ''.''" "?seg \<noteq> ''..''"
      and rest: "\<forall>s\<in>set (segments (dropWhile (\<lambda>x. x \<noteq> CHR ''/'') rest)). s \<noteq> ''.'' \<and> s \<noteq> ''..''"
      by (simp_all add: segments_char)
    from ord(1) have n2: "\<not> (c = CHR ''.'' \<and> (rest = [] \<or> hd rest = CHR ''/''))"
      by (cases rest) auto
    from ord(2) n2 have n3: "\<not> (c = CHR ''.'' \<and> hd rest = CHR ''.'' \<and> (tl rest = [] \<or> hd (tl rest) = CHR ''/''))"
      by (cases rest; cases "tl rest") auto
    have step: "clean_loop rooted out dotdot (c # rest)
        = clean_loop rooted
          ((if rooted \<and> length out \<noteq> 1 \<or> \<not> rooted \<and> length out \<noteq> 0
            then out @ ''/'' else out) @ ?seg)
          dotdot (dropWhile (\<lambda>x. x \<noteq> CHR ''/'') rest)"
      using False n2 n3 by (simp only: clean_loop.simps(2) if_False)
    have segs: "segments (c # rest) = ?seg # segments (dropWhile (\<lambda>x. x \<noteq> CHR ''/'') rest)"
      using False by (rule segments_char)
    show ?thesis
      unfolding step segs 2(2)[OF False rest] by (simp only: foldl_Cons)
  qed
qed

lemma join_with_concat:
  "join_with sep (s # ss) = s @ concat (map (\<lambda>x. sep @ x) ss)"
  by (induction ss arbitrary: s) simp_all

lemma foldl_sep:
  assumes "\<forall>s\<in>set segs. s \<noteq> []"
    and "rooted \<and> length out \<noteq> 1 \<or> \<not> rooted \<and> length out \<noteq> 0"
  shows "foldl (\<lambda>buf s. (if rooted \<and> length buf \<noteq> 1 \<or> \<not> rooted \<and> length buf \<noteq> 0
                             then buf @ ''/'' else buf) @ s) out segs
         = out @ concat (map (\<lambda>x. ''/'' @ x) segs)"
  using assms
proof (induction segs arbitrary: out)
  case Nil
  then show ?case by simp
next
  case (Cons s segs)
  from Cons.prems have s: "s \<noteq> []" and rest: "\<forall>s\<in>set segs. s \<noteq> []" by simp_all
  from s have len: "length ((out @ ''/'') @ s) \<ge> 2"
    by (cases s) simp_all
  then have next_ok: "rooted \<and> length ((out @ ''/'') @ s) \<noteq> 1 \<or> \<not> rooted \<and> length ((out @ ''/'') @ s) \<noteq> 0"
    by auto
  from Cons.prems(2) have "foldl (\<lambda>buf s. (if rooted \<and> length buf \<noteq> 1 \<or> \<not> rooted \<and> length buf \<noteq> 0
                             then buf @ ''/'' else buf) @ s) out (s # segs)
     = foldl (\<lambda>buf s. (if rooted \<and> length buf \<noteq> 1 \<or> \<not> rooted \<and> length buf \<noteq> 0
                             then buf @ ''/'' else buf) @ s) ((out @ ''/'') @ s) segs"
    by simp
  also have "\<dots> = ((out @ ''/'') @ s) @ concat (map (\<lambda>x. ''/'' @ x) segs)"
    by (rule Cons.IH[OF rest next_ok])
  finally show ?case by simp
qed

lemma foldl_sep_start:
  assumes "\<forall>s\<in>set segs. s \<noteq> []"
  shows "foldl (\<lambda>buf s. (if rooted \<and> length buf \<noteq> 1 \<or> \<not> rooted \<and> length buf \<noteq> 0
                             then buf @ ''/'' else buf) @ s) (if rooted then ''/'' else []) segs
         = (if rooted then ''/'' else []) @ join_with ''/'' segs"
proof (cases segs)
  case Nil
  then show ?thesis by simp
next
  case (Cons s ss)
  with assms have s: "s \<noteq> []" and rest: "\<forall>s\<in>set ss. s \<noteq> []" by simp_all
  from s have ok: "rooted \<and> length ((if rooted then ''/'' else []) @ s) \<noteq> 1
      \<or> \<not> rooted \<and> length ((if rooted then ''/'' else []) @ s) \<noteq> 0"
    by (cases s) auto
  have "foldl (\<lambda>buf s. (if rooted \<and> length buf \<noteq> 1 \<or> \<not> rooted \<and> length buf \<noteq> 0
                             then buf @ ''/'' else buf) @ s) (if rooted then ''/'' else []) (s # ss)
     = foldl (\<lambda>buf s. (if rooted \<and> length buf \<noteq> 1 \<or> \<not> rooted \<and> length buf \<noteq> 0
                             then buf @ ''/'' else buf) @ s) ((if rooted then ''/'' else []) @ s) ss"
    by simp
  also have "\<dots> = ((if rooted then ''/'' else []) @ s) @ concat (map (\<lambda>x. ''/'' @ x) ss)"
    by (rule foldl_sep[OF rest ok])
  finally show ?thesis
    by (simp add: Cons join_with_concat)
qed

lemma Clean_ordinary:
  assumes "p \<noteq> []" and "\<forall>s\<in>set (segments p). s \<noteq> ''.'' \<and> s \<noteq> ''..''"
  shows "Clean p = (if hd p = CHR ''/'' then ''/'' else []) @ join_with ''/'' (segments p)"
proof -
  from assms(1) obtain c rest where p: "p = c # rest" by (cases p) auto
  have ne: "\<forall>s\<in>set (segments q). s \<noteq> []" for q
    using segments_nonempty by blast
  show ?thesis
  proof (cases "c = CHR ''/''")
    case True
    from assms(2) p True have ord: "\<forall>s\<in>set (segments rest). s \<noteq> ''.'' \<and> s \<noteq> ''..''"
      by (simp add: segments_slash)
    have "clean_loop True ''/'' 1 rest = ''/'' @ join_with ''/'' (segments rest)"
      using clean_loop_ordinary[OF ord, of True "''/''" 1] foldl_sep_start[OF ne, of True rest]
      by simp
    with p True show ?thesis
      by (simp add: Clean_def segments_slash)
  next
    case False
    have "clean_loop False [] 0 p = join_with ''/'' (segments p)"
      using clean_loop_ordinary[OF assms(2), of False "[]" 0] foldl_sep_start[OF ne, of False p]
      by simp
    moreover from p False have "segments p \<noteq> []" by (simp add: segments_char)
    then have "join_with ''/'' (segments p) \<noteq> []"
      using ne[of p] by (cases "segments p") (auto simp: join_with_concat)
    ultimately show ?thesis using p False
      by (simp add: Clean_def)
  qed
qed

lemma Join_ordinary:
  assumes "\<forall>s\<in>set (segments base @ segments endpoint). s \<noteq> ''.'' \<and> s \<noteq> ''..''"
  shows "Join [base, endpoint] = joined_path base endpoint"
proof (cases "base = []")
  case True
  show ?thesis
  proof (cases "endpoint = []")
    case True
    with \<open>base = []\<close> show ?thesis
      by (simp add: Join_def joined_path_def rooted_join_def)
  next
    case False
    from assms have "\<forall>s\<in>set (segments endpoint). s \<noteq> ''.'' \<and> s \<noteq> ''..''" by simp
    from Clean_ordinary[OF False this] False \<open>base = []\<close> show ?thesis
      by (simp add: Join_def joined_path_def rooted_join_def)
  qed
next
  case False
  have ne: "base @ CHR ''/'' # endpoint \<noteq> []" by simp
  have segs: "segments (base @ CHR ''/'' # endpoint) = segments base @ segments endpoint"
    by (rule segments_append_slash)
  from assms segs have ord: "\<forall>s\<in>set (segments (base @ CHR ''/'' # endpoint)). s \<noteq> ''.'' \<and> s \<noteq> ''..''"
    by simp
  from False have hd: "hd (base @ CHR ''/'' # endpoint) = hd base" by simp
  from Clean_ordinary[OF ne ord] False segs hd show ?thesis
    by (simp add: Join_def joined_path_def rooted_join_def)
qed

lemma segments_slashes: "segments (replicate n CHR ''/'' @ p) = segments p"
  by (induction n) (simp_all add: segments_slash)

lemma segments_only_slashes: "segments (replicate k CHR ''/'') = []"
  using segments_slashes[of k "[]"] by simp

lemma segments_trailing_slashes: "segments (p @ replicate m CHR ''/'') = segments p"
proof (cases m)
  case 0
  then show ?thesis by simp
next
  case (Suc k)
  have "segments (p @ CHR ''/'' # replicate k CHR ''/'') = segments p @ segments (replicate k CHR ''/'')"
    by (rule segments_append_slash)
  also have "\<dots> = segments p"
    by (simp add: segments_only_slashes)
  finally show ?thesis using Suc by simp
qed

lemma joined_path_slashes:
  assumes "base \<noteq> []"
  shows "joined_path (base @ replicate m CHR ''/'') (replicate n CHR ''/'' @ endpoint)
         = joined_path base endpoint"
  using assms
  by (simp add: joined_path_def rooted_join_def segments_slashes segments_trailing_slashes)

lemma plain_segments_iff:
  "plain_segments p \<longleftrightarrow> (\<forall>s\<in>set (segments p). s \<noteq> ''.'' \<and> s \<noteq> ''..'')"
  by (simp add: plain_segments_def list_all_iff)

text \<open>
  C4 (amended). For every base URL that parses and every endpoint, when neither the path
  of the base URL nor the endpoint has a segment \<open>.\<close> or \<open>..\<close>, the path \<open>buildRequest\<close> gives to
  the URL it prints for the request is the joined path: the segments of the base path, then
  the segments of the endpoint, with exactly one slash between two neighbours, however many
  slashes end the base path or start the endpoint. The URL of the request built is what
  the URL parser reads back from the print of the base URL with that path.
\<close>

theorem buildRequest_joins_path:
  assumes "url_Parse lib (baseUrl c) = Inr uri"
    and "plain_segments (Path uri)" and "plain_segments endpoint"
    and "buildRequest lib c method endpoint params = Inr req"
  shows "Join [Path uri, endpoint] = joined_path (Path uri) endpoint
     \<and> (\<exists>u. url_Parse lib (URL_String lib (uri\<lparr>Path := joined_path (Path uri) endpoint\<rparr>)) = Inr u
            \<and> URL req = u\<lparr>Host := removeEmptyPort (Host u)\<rparr>)
     \<and> (Path uri \<noteq> [] \<longrightarrow>
          joined_path (Path uri @ replicate m CHR ''/'') (replicate n CHR ''/'' @ endpoint)
            = joined_path (Path uri) endpoint)"
proof -
  from assms(2,3) have "\<forall>s\<in>set (segments (Path uri) @ segments endpoint). s \<noteq> ''.'' \<and> s \<noteq> ''..''"
    by (auto simp: plain_segments_iff)
  then have j: "Join [Path uri, endpoint] = joined_path (Path uri) endpoint"
    by (rule Join_ordinary)
  from assms(1,4) obtain r where
    r: "http_NewRequest lib method (URL_String lib (uri\<lparr>Path := Join [Path uri, endpoint]\<rparr>))
          (Values_Encode params) = Inr r"
    and req: "req = (if method = MethodPost
                     then r\<lparr>Header := Header_Set ''Content-Type'' ''application/x-www-form-urlencoded'' (Header r)\<rparr>
                     else r)"
    by (auto simp: buildRequest_def split: sum.splits if_splits)
  from http_NewRequest_Inr[OF r] req j
  have u: "\<exists>u. url_Parse lib (URL_String lib (uri\<lparr>Path := joined_path (Path uri) endpoint\<rparr>)) = Inr u
            \<and> URL req = u\<lparr>Host := removeEmptyPort (Host u)\<rparr>"
    by auto
  from j u joined_path_slashes show ?thesis by blast
qed

theorem buildRequest_joins_path_witness:
  "Join [''/api/'', ''//detect''] = ''/api/detect''
   \<and> (\<exists>req. buildRequest example_lib
               \<lparr>baseUrl = ''https://libretranslate.com/api/'', client = respond 200 [], token = ''k''\<rparr>
               MethodPost ''//detect'' [] = Inr req
           \<and> Path (URL req) = ''/api/detect'')"
proof -
  let ?c = "\<lparr>baseUrl = ''https://libretranslate.com/api/'', client = respond 200 [], token = ''k''\<rparr>"
  let ?uri = "\<lparr>Scheme = ''https'', Opaque = [], User = None, Host = ''libretranslate.com'',
               Path = ''/api/'', RawPath = [], OmitHost = False, ForceQuery = False, RawQuery = [],
               Fragment = [], RawFragment = []\<rparr>"
  have p: "url_Parse example_lib (baseUrl ?c) = Inr ?uri"
    by code_simp
  have s1: "plain_segments (Path ?uri)" and s2: "plain_segments ''//detect''"
    by code_simp+
  have "case buildRequest example_lib ?c MethodPost ''//detect'' [] of Inl a \<Rightarrow> False | Inr b \<Rightarrow> True"
    by code_simp
  then obtain req where req: "buildRequest example_lib ?c MethodPost ''//detect'' [] = Inr req"
    using sum_is_Inr by blast
  have j: "joined_path ''/api/'' ''//detect'' = ''/api/detect''"
    by code_simp
  have pp: "url_Parse example_lib (URL_String example_lib (?uri\<lparr>Path := ''/api/detect''\<rparr>))
            = Inr (?uri\<lparr>Path := ''/api/detect''\<rparr>)"
    by code_simp
  from buildRequest_joins_path[OF p s1 s2 req, of 0 0] j pp
  have "Join [''/api/'', ''//detect''] = ''/api/detect'' \<and> Path (URL req) = ''/api/detect''"
    by auto
  with req show ?thesis by blast
qed

text \<open>
  C4 as stated fails for an endpoint with a \<open>..\<close> segment: \<open>path.Join\<close> cleans the joined
  path, so with the base path \<open>/api\<close> and the endpoint \<open>../detect\<close> the request path is
  \<open>/detect\<close>; the base path is gone, not joined to the endpoint by a separator.
\<close>

theorem buildRequest_dotdot_counterexample:
  "\<exists>req. buildRequest example_lib
            \<lparr>baseUrl = ''https://libretranslate.com/api'', client = respond 200 [], token = ''k''\<rparr>
            MethodPost ''../detect'' [] = Inr req
        \<and> Path (URL req) = ''/detect''
        \<and> Path (URL req) \<noteq> ''/api/../detect''"
proof -
  let ?c = "\<lparr>baseUrl = ''https://libretranslate.com/api'', client = respond 200 [], token = ''k''\<rparr>"
  have "case buildRequest example_lib ?c MethodPost ''../detect'' [] of
          Inl a \<Rightarrow> False | Inr r \<Rightarrow> Path (URL r) = ''/detect''"
    by code_simp
  then show ?thesis
    by (cases "buildRequest example_lib ?c MethodPost ''../detect'' []") auto
qed

section \<open>Properties: failures\<close>





text \<open>
  C3. An operation either succeeds with a decoded value or fails with one error and no
  partly decoded value. \<open>Translate\<close> and \<open>Detect\<close> of the client without a token do so. \<open>Detect\<close>
  and \<open>GetLanguages\<close> of the client with a token, and \<open>GetLanguages\<close> of the client without,
  return \<open>result, err\<close>: when an element of the array has a member of the wrong type, the
  caller gets the error together with the slice decoded so far.
\<close>

theorem decode_failure_returns_partial_result:
  "fst (Detect example_lib
          \<lparr>baseUrl = DefaultBaseURL,
            client = respond 200 ''[{\"confidence\":\"high\",\"language\":\"en\"}]'', token = ''k''\<rparr> ''Hello'')
     = Return [\<lparr>Confidence = 0, Language = ''en''\<rparr>] (Some (JSONError (UnmarshalTypeError ''string'')))
   \<and> fst (GetLanguages example_lib
          \<lparr>baseUrl = DefaultBaseURL,
            client = respond 200 ''[{\"code\":\"en\",\"name\":5}]'', token = ''k''\<rparr>)
     = Return [\<lparr>Code = ''en'', Name = []\<rparr>] (Some (JSONError (UnmarshalTypeError ''number'')))
   \<and> fst (GetLanguages_noauth example_lib
          \<lparr>baseUrl = DefaultBaseURL_noauth, client = respond 200 ''[{\"code\":\"en\",\"name\":5}]''\<rparr>)
     = Return [\<lparr>Code = ''en'', Name = []\<rparr>] (Some (JSONError (UnmarshalTypeError ''number'')))
   \<and> fst (Detect_noauth example_lib
          \<lparr>baseUrl = DefaultBaseURL_noauth,
            client = respond 200 ''[{\"confidence\":\"high\",\"language\":\"en\"}]''\<rparr> ''Hello'')
     = Return [] (Some (JSONError (UnmarshalTypeError ''string'')))"
  by code_simp

section \<open>Properties: one attempt, failures returned\<close>

lemma Detect_noauth_at_most_one: "length (snd (Detect_noauth lib c q)) \<le> 1"
  by (auto simp: Detect_noauth_def Let_def split: sum.splits prod.splits option.splits)

lemma GetLanguages_noauth_at_most_one: "length (snd (GetLanguages_noauth lib c)) \<le> 1"
  by (auto simp: GetLanguages_noauth_def client_Do_def Let_def split: sum.splits prod.splits option.splits)

lemma Translate_noauth_at_most_one: "length (snd (Translate_noauth lib c query source target)) \<le> 1"
  by (auto simp: Translate_noauth_def Let_def split: sum.splits prod.splits option.splits)

text \<open>
  X2. No operation retries: each of the six operations hands at most one request to the
  HTTP client.
\<close>

theorem single_attempt:
  "length (snd (Detect lib c q)) \<le> 1
   \<and> length (snd (GetLanguages lib c)) \<le> 1
   \<and> length (snd (Translate lib c query source target)) \<le> 1
   \<and> length (snd (Detect_noauth lib c0 q)) \<le> 1
   \<and> length (snd (GetLanguages_noauth lib c0)) \<le> 1
   \<and> length (snd (Translate_noauth lib c0 query source target)) \<le> 1"
  by (intro conjI dispatched_at_most_one Detect_noauth_at_most_one
      GetLanguages_noauth_at_most_one Translate_noauth_at_most_one)

text \<open>
  X1. In the client with a token a failure of a stage ends the operation and is returned
  unchanged, with the zero value: the error of \<open>buildRequest\<close> (nothing is sent then), the
  error of the HTTP client, the error of the response checker, and for \<open>Translate\<close> the error
  of decoding the body.
\<close>

theorem token_client_returns_failures:
  "(buildRequest lib c MethodGet ''/languages'' (Values_Set ''api_key'' (token c) []) = Inl e
      \<longrightarrow> GetLanguages lib c = (Return [] (Some e), []))
   \<and> (buildRequest lib c MethodGet ''/languages'' (Values_Set ''api_key'' (token c) []) = Inr req
        \<and> client c req = Inl e
      \<longrightarrow> GetLanguages lib c = (Return [] (Some e), [req]))
   \<and> (buildRequest lib c MethodGet ''/languages'' (Values_Set ''api_key'' (token c) []) = Inr req
        \<and> client c req = Inr res \<and> checkForResponseErrors res = Inl e
      \<longrightarrow> GetLanguages lib c = (Return [] (Some e), [req]))
   \<and> (buildRequest lib c MethodPost ''/detect''
          (Values_Set ''api_key'' (token c) (Values_Set ''q'' q [])) = Inl e
      \<longrightarrow> Detect lib c q = (Return [] (Some e), []))
   \<and> (buildRequest lib c MethodPost ''/detect''
          (Values_Set ''api_key'' (token c) (Values_Set ''q'' q [])) = Inr req
        \<and> client c req = Inl e
      \<longrightarrow> Detect lib c q = (Return [] (Some e), [req]))
   \<and> (buildRequest lib c MethodPost ''/detect''
          (Values_Set ''api_key'' (token c) (Values_Set ''q'' q [])) = Inr req
        \<and> client c req = Inr res \<and> checkForResponseErrors res = Inl e
      \<longrightarrow> Detect lib c q = (Return [] (Some e), [req]))
   \<and> (buildRequest lib c MethodPost ''/translate''
          (Values_Set ''api_key'' (token c) (Values_Set ''target'' target
             (Values_Set ''source'' source (Values_Set ''q'' query [])))) = Inl e
      \<longrightarrow> Translate lib c query source target = (Return [] (Some e), []))
   \<and> (buildRequest lib c MethodPost ''/translate''
          (Values_Set ''api_key'' (token c) (Values_Set ''target'' target
             (Values_Set ''source'' source (Values_Set ''q'' query [])))) = Inr req
        \<and> client c req = Inl e
      \<longrightarrow> Translate lib c query source target = (Return [] (Some e), [req]))
   \<and> (buildRequest lib c MethodPost ''/translate''
          (Values_Set ''api_key'' (token c) (Values_Set ''target'' target
             (Values_Set ''source'' source (Values_Set ''q'' query [])))) = Inr req
        \<and> client c req = Inr res \<and> checkForResponseErrors res = Inl e
      \<longrightarrow> Translate lib c query source target = (Return [] (Some e), [req]))
   \<and> (buildRequest lib c MethodPost ''/translate''
          (Values_Set ''api_key'' (token c) (Values_Set ''target'' target
             (Values_Set ''source'' source (Values_Set ''q'' query [])))) = Inr req
        \<and> client c req = Inr res \<and> checkForResponseErrors res = Inr body
        \<and> Decode_TranslateResult body = (result, Some je)
      \<longrightarrow> Translate lib c query source target = (Return [] (Some (JSONError je)), [req]))"
  by (simp add: GetLanguages_def Detect_def Translate_def doRequest_def)

theorem token_client_returns_failures_witness:
  "fst (GetLanguages example_lib
          \<lparr>baseUrl = DefaultBaseURL, client = (\<lambda>r. Inl (TransportError ''connection refused'')),
            token = ''k''\<rparr>)
     = Return [] (Some (TransportError ''connection refused''))
   \<and> fst (Translate example_lib
          \<lparr>baseUrl = DefaultBaseURL, client = respond 403 ''{\"error\":\"invalid api key\"}'',
            token = ''k''\<rparr> ''Hello'' ''en'' ''fr'')
     = Return [] (Some (Errorf ''API error: code 403 - invalid api key''))"
proof -
  let ?c1 = "\<lparr>baseUrl = DefaultBaseURL, client = (\<lambda>r. Inl (TransportError ''connection refused'')),
            token = ''k''\<rparr>"
  let ?c2 = "\<lparr>baseUrl = DefaultBaseURL, client = respond 403 ''{\"error\":\"invalid api key\"}'',
            token = ''k''\<rparr>"
  let ?res = "\<lparr>StatusCode = 403, Body = ''{\"error\":\"invalid api key\"}''\<rparr>"
  have "case buildRequest example_lib ?c1 MethodGet ''/languages'' (Values_Set ''api_key'' (token ?c1) []) of
          Inl a \<Rightarrow> False | Inr b \<Rightarrow> True"
    by code_simp
  then obtain r1 where r1: "buildRequest example_lib ?c1 MethodGet ''/languages''
          (Values_Set ''api_key'' (token ?c1) []) = Inr r1"
    using sum_is_Inr by blast
  have "case buildRequest example_lib ?c2 MethodPost ''/translate''
          (Values_Set ''api_key'' (token ?c2) (Values_Set ''target'' ''fr''
             (Values_Set ''source'' ''en'' (Values_Set ''q'' ''Hello'' [])))) of
          Inl a \<Rightarrow> False | Inr b \<Rightarrow> True"
    by code_simp
  then obtain r2 where r2: "buildRequest example_lib ?c2 MethodPost ''/translate''
          (Values_Set ''api_key'' (token ?c2) (Values_Set ''target'' ''fr''
             (Values_Set ''source'' ''en'' (Values_Set ''q'' ''Hello'' [])))) = Inr r2"
    using sum_is_Inr by blast
  have chk: "checkForResponseErrors ?res = Inl (Errorf ''API error: code 403 - invalid api key'')"
    by code_simp
  from token_client_returns_failures[where lib = example_lib and c = ?c1 and req = r1
      and e = "TransportError ''connection refused''"] r1
  have a: "fst (GetLanguages example_lib ?c1) = Return [] (Some (TransportError ''connection refused''))"
    by simp
  from token_client_returns_failures[where lib = example_lib and c = ?c2 and req = r2
      and res = ?res and e = "Errorf ''API error: code 403 - invalid api key''"
      and query = "''Hello''" and source = "''en''" and target = "''fr''"] r2 chk
  have b: "fst (Translate example_lib ?c2 ''Hello'' ''en'' ''fr'')
     = Return [] (Some (Errorf ''API error: code 403 - invalid api key''))"
    by (simp add: respond_def)
  from a b show ?thesis by simp
qed

end
